theory Spec2Isabelle
  imports Complex_Main "HOL-Library.Word"
begin

section \<open>Platform values shared by the recorder, the playback and the remote exchange\<close>

text \<open>
  A \<open>Blob\<close> is an immutable byte sequence with a MIME type. \<open>new Blob(parts, {type})\<close>
  concatenates the parts in the order of the array; \<open>new Blob()\<close> is the empty blob;
  \<open>blob.size\<close> is the number of bytes.
\<close>

type_synonym byte = "8 word"

record blob =
  bytes :: "byte list"
  mime :: string

definition blob_size :: "blob \<Rightarrow> nat" where
  "blob_size b = length (bytes b)"

definition new_Blob :: "blob list \<Rightarrow> string \<Rightarrow> blob" where
  "new_Blob parts t = \<lparr>bytes = concat (map bytes parts), mime = t\<rparr>"

definition empty_Blob :: blob where
  "empty_Blob = new_Blob [] []"

text \<open>
  What a JavaScript \<open>throw\<close> or a rejected promise carries here: a \<open>DOMException\<close> with
  its name and message, a \<open>TypeError\<close> or a plain \<open>Error\<close> with its message. All three
  are instances of \<open>Error\<close>, so \<open>error.message\<close> is defined on each.
\<close>

datatype js_error = DOMException string string | TypeError string | Error string

fun message :: "js_error \<Rightarrow> string" where
  "message (DOMException n m) = m"
| "message (TypeError m) = m"
| "message (Error m) = m"

text \<open>
  The state of a promise as its caller observes it: fulfilled with a value, rejected with
  an error, or not settled by the time the executor has returned.
\<close>

datatype 'a settled = Resolved 'a | Rejected js_error | Pending

text \<open>Calls into the platform that leave no trace in the hook's own refs.\<close>

datatype effect =
    GetUserMedia nat
  | NewAudioContext
  | CreateAnalyser
  | CreateMediaStreamSource nat
  | ConnectSourceAnalyser
  | NewMediaRecorder nat
  | RecorderStart
  | RecorderStop
  | TrackStop nat
  | CloseAudioContext
  | CancelAnimationFrame nat
  | NewAudio
  | CreateMediaElementSource
  | ConnectAnalyserDestination
  | CreateObjectURL nat
  | RevokeObjectURL nat
  | AudioPlay nat

section \<open>Level metering: \<open>analyzeAudio\<close> and \<open>analyzePlayback\<close>\<close>

record analyser_node =
  fftSize :: nat

definition frequencyBinCount :: "analyser_node \<Rightarrow> nat" where
  "frequencyBinCount a = fftSize a div 2"

text \<open>
  \<open>new Uint8Array(frequencyBinCount)\<close> is zero-filled and \<open>getByteFrequencyData\<close> copies
  the analyser's current magnitudes into it: the array always has \<open>frequencyBinCount\<close>
  entries, whatever the platform has to offer.
\<close>

definition getByteFrequencyData :: "analyser_node \<Rightarrow> byte list \<Rightarrow> byte list" where
  "getByteFrequencyData a reading =
     take (frequencyBinCount a) (reading @ replicate (frequencyBinCount a) 0)"

text \<open>
  \<open>dataArray.reduce((a, b) => a + b) / dataArray.length\<close>, then \<open>average / 255\<close>.
  JavaScript numbers are IEEE doubles; the sum of the bins and the two quotients are
  taken here in exact arithmetic. \<open>reduce\<close> without an initial value throws a
  \<open>TypeError\<close> on an empty array.
\<close>

definition average :: "byte list \<Rightarrow> real" where
  "average dataArray = real (sum_list (map unat dataArray)) / real (length dataArray)"

definition sample_level :: "byte list \<Rightarrow> js_error + real" where
  "sample_level dataArray =
     (if dataArray = [] then Inl (TypeError ''Reduce of empty array with no initial value'')
      else Inr (average dataArray / 255))"

section \<open>The recorder hook (\<open>src/hooks/useAudioRecorder.ts\<close>)\<close>

datatype recording_state = Inactive | Recording | Paused

text \<open>
  A \<open>MediaRecorder\<close>: the stream it was built on, its \<open>state\<close> attribute, whether
  \<open>stopRecording\<close> has installed its \<open>onstop\<close> handler (the closure that holds the
  \<open>resolve\<close> of the promise that call returned), and whether the platform has queued its
  \<open>stop\<close> event. That event is queued when \<open>stop()\<close> is called on an active recorder or when
  the recorder is inactivated because its tracks ended, and at no other time.
\<close>

record media_recorder =
  mr_stream :: nat
  mr_state :: recording_state
  mr_onstop :: bool
  mr_stop_queued :: bool

record audio_context =
  ctx_closed :: bool

text \<open>
  The hook's React state (\<open>isRecording\<close>, \<open>audioLevel\<close>) and refs, followed by what the
  platform holds for it: the number of \<open>startRecording\<close> calls suspended at
  \<open>await getUserMedia\<close>, the recorders that \<open>mediaRecorderRef\<close> no longer holds, the
  animation-frame callbacks that are scheduled and not cancelled (each one is a live
  sampling loop), the next handle \<open>requestAnimationFrame\<close> returns (handles are positive),
  the console, and the log of platform calls.
\<close>

record recorder_hook =
  isRecording :: bool
  audioLevel :: real
  mediaRecorderRef :: "media_recorder option"
  audioChunksRef :: "blob list"
  audioContextRef :: "audio_context option"
  analyserRef :: "analyser_node option"
  animationFrameRef :: "nat option"
  starting :: nat
  orphans :: "media_recorder list"
  frames :: "nat list"
  nextFrame :: nat
  console :: "string list"
  effects :: "effect list"

definition init_recorder :: recorder_hook where
  "init_recorder =
     \<lparr>isRecording = False, audioLevel = 0, mediaRecorderRef = None, audioChunksRef = [],
      audioContextRef = None, analyserRef = None, animationFrameRef = None,
      starting = 0, orphans = [], frames = [], nextFrame = 1, console = [], effects = []\<rparr>"

text \<open>
  \<open>analyzeAudio\<close>: returns at once without an analyser; otherwise samples, publishes the
  level and schedules itself for the next frame. \<open>reading\<close> is what the analyser holds
  when it is sampled. An exception in \<open>reduce\<close> leaves the callback before the level is
  set and before the next frame is requested.
\<close>

definition analyzeAudio :: "byte list \<Rightarrow> recorder_hook \<Rightarrow> recorder_hook" where
  "analyzeAudio reading s =
     (case analyserRef s of
        None \<Rightarrow> s
      | Some a \<Rightarrow>
          (case sample_level (getByteFrequencyData a reading) of
             Inl e \<Rightarrow> s
           | Inr l \<Rightarrow>
               s\<lparr>audioLevel := l,
                 animationFrameRef := Some (nextFrame s),
                 frames := frames s @ [nextFrame s],
                 nextFrame := Suc (nextFrame s)\<rparr>))"

text \<open>The platform runs a scheduled callback once; a cancelled handle runs nothing.\<close>

definition animation_frame :: "nat \<Rightarrow> byte list \<Rightarrow> recorder_hook \<Rightarrow> recorder_hook" where
  "animation_frame h reading s =
     (if h \<in> set (frames s) then analyzeAudio reading (s\<lparr>frames := removeAll h (frames s)\<rparr>)
      else s)"

text \<open>
  \<open>startRecording\<close> is an async function with one \<open>await\<close>. Its first part runs with the
  call: the guard either returns (the promise is fulfilled) or lets the call through to
  \<open>getUserMedia\<close>, where it is suspended; nothing has been assigned by then.
\<close>

definition startRecording_guard :: "recorder_hook \<Rightarrow> unit settled \<times> recorder_hook" where
  "startRecording_guard s =
     (if (case mediaRecorderRef s of None \<Rightarrow> False | Some r \<Rightarrow> mr_state r \<noteq> Inactive)
      then (Resolved (),
            s\<lparr>console := console s @ [''Previous recording still active, waiting...'']\<rparr>)
      else (Pending, s\<lparr>starting := Suc (starting s)\<rparr>))"

text \<open>
  What \<open>new MediaRecorder(stream, {mimeType})\<close> and \<open>mediaRecorder.start()\<close> do: both
  succeed, or the constructor throws, or \<open>start()\<close> throws.
\<close>

datatype recorder_outcome = Started | Constructor_throws js_error | Start_throws js_error

text \<open>
  The second part of \<open>startRecording\<close> runs when \<open>getUserMedia\<close> has settled, whatever
  has happened in between: the guard is not looked at again. \<open>gum\<close> is what
  \<open>getUserMedia\<close> settled with (an error or the id of the acquired stream), \<open>reading\<close> is
  what the analyser holds at the first sampling. Every exception reaches the \<open>catch\<close>
  block, which logs and rethrows; what was acquired before the exception stays
  acquired. Assigning the ref drops the recorder it held, if any.
\<close>

definition startRecording_resume ::
  "js_error + nat \<Rightarrow> recorder_outcome \<Rightarrow> byte list \<Rightarrow> recorder_hook
     \<Rightarrow> unit settled \<times> recorder_hook" where
  "startRecording_resume gum made reading s =
     (let s0 = s\<lparr>starting := starting s - 1\<rparr>
      in case gum of
           Inl e \<Rightarrow>
             (Rejected e, s0\<lparr>console := console s0 @ [''Error starting recording:'']\<rparr>)
         | Inr stream \<Rightarrow>
             (let s1 = s0\<lparr>effects := effects s0 @ [GetUserMedia stream]\<rparr>;
                  s2 = s1\<lparr>audioContextRef := Some \<lparr>ctx_closed = False\<rparr>,
                          effects := effects s1 @ [NewAudioContext]\<rparr>;
                  s3 = s2\<lparr>analyserRef := Some \<lparr>fftSize = 2048\<rparr>,
                          effects := effects s2 @ [CreateAnalyser]\<rparr>;
                  s4 = s3\<lparr>effects := effects s3 @
                            [CreateMediaStreamSource stream, ConnectSourceAnalyser]\<rparr>;
                  s5 = s4\<lparr>analyserRef := map_option (\<lambda>a. a\<lparr>fftSize := 256\<rparr>) (analyserRef s4)\<rparr>;
                  s6 = analyzeAudio reading s5
              in case made of
                   Constructor_throws e \<Rightarrow>
                     (Rejected e, s6\<lparr>console := console s6 @ [''Error starting recording:'']\<rparr>)
                 | Start_throws e \<Rightarrow>
                     (let s7 = s6\<lparr>effects := effects s6 @ [NewMediaRecorder stream]\<rparr>;
                          s8 = s7\<lparr>audioChunksRef := []\<rparr>
                      in (Rejected e,
                          s8\<lparr>console := console s8 @ [''Error starting recording:'']\<rparr>))
                 | Started \<Rightarrow>
                     (let s7 = s6\<lparr>effects := effects s6 @ [NewMediaRecorder stream]\<rparr>;
                          s8 = s7\<lparr>audioChunksRef := []\<rparr>;
                          s9 = s8\<lparr>effects := effects s8 @ [RecorderStart]\<rparr>;
                          s10 = s9\<lparr>orphans := (case mediaRecorderRef s9 of
                                                  None \<Rightarrow> orphans s9
                                                | Some old \<Rightarrow> orphans s9 @ [old]),
                                   mediaRecorderRef :=
                                     Some \<lparr>mr_stream = stream, mr_state = Recording,
                                           mr_onstop = False, mr_stop_queued = False\<rparr>\<rparr>
                      in (Resolved (), s10\<lparr>isRecording := True\<rparr>))))"

text \<open>\<open>startRecording\<close> from the call to its end, when nothing else runs at the \<open>await\<close>.\<close>

definition startRecording ::
  "js_error + nat \<Rightarrow> recorder_outcome \<Rightarrow> byte list \<Rightarrow> recorder_hook
     \<Rightarrow> unit settled \<times> recorder_hook" where
  "startRecording gum made reading s =
     (let (p, s1) = startRecording_guard s
      in case p of
           Pending \<Rightarrow> startRecording_resume gum made reading s1
         | Resolved u \<Rightarrow> (Resolved u, s1)
         | Rejected e \<Rightarrow> (Rejected e, s1))"

text \<open>\<open>mediaRecorder.ondataavailable\<close>: an empty fragment is dropped, any other is appended.\<close>

definition ondataavailable :: "blob \<Rightarrow> recorder_hook \<Rightarrow> recorder_hook" where
  "ondataavailable data s =
     (if blob_size data > 0 then s\<lparr>audioChunksRef := audioChunksRef s @ [data]\<rparr> else s)"

fun deliver :: "blob list \<Rightarrow> recorder_hook \<Rightarrow> recorder_hook" where
  "deliver [] s = s"
| "deliver (c # cs) s = deliver cs (ondataavailable c s)"

text \<open>
  \<open>stopRecording\<close>, the executor of the promise it returns. Without a recorder it
  resolves with \<open>new Blob()\<close>. Otherwise it installs \<open>onstop\<close> and calls
  \<open>recorder.stop()\<close>. On an active recorder that call inactivates it and queues its
  \<open>stop\<close> event. On an inactive recorder it does nothing in the current MediaStream
  Recording algorithm and throws \<open>InvalidStateError\<close> in the earlier one; \<open>legacy\<close>
  chooses the earlier one. An exception in the executor rejects the promise.
\<close>

definition stopRecording :: "bool \<Rightarrow> recorder_hook \<Rightarrow> blob settled \<times> recorder_hook" where
  "stopRecording legacy s =
     (case mediaRecorderRef s of
        None \<Rightarrow> (Resolved empty_Blob, s)
      | Some recorder \<Rightarrow>
          (let r1 = recorder\<lparr>mr_onstop := True\<rparr> in
           if mr_state r1 = Inactive then
             (if legacy
              then Rejected (DOMException ''InvalidStateError'' ''The MediaRecorder is inactive'')
              else Pending,
              s\<lparr>mediaRecorderRef := Some r1\<rparr>)
           else
             (Pending,
              s\<lparr>mediaRecorderRef := Some (r1\<lparr>mr_state := Inactive, mr_stop_queued := True\<rparr>),
                effects := effects s @ [RecorderStop]\<rparr>)))"

definition cancel_frame :: "nat option \<Rightarrow> recorder_hook \<Rightarrow> recorder_hook" where
  "cancel_frame ref s =
     (case ref of
        None \<Rightarrow> s
      | Some h \<Rightarrow>
          if h = 0 then s
          else s\<lparr>frames := removeAll h (frames s),
                 effects := effects s @ [CancelAnimationFrame h]\<rparr>)"

text \<open>
  The handler \<open>recorder.onstop\<close> that \<open>stopRecording\<close> installs; \<open>recorder\<close> is the
  recorder its closure captured. It yields the blob it passes to \<open>resolve\<close>.
\<close>

definition onstop :: "media_recorder \<Rightarrow> recorder_hook \<Rightarrow> blob \<times> recorder_hook" where
  "onstop recorder s =
     (let audioBlob = new_Blob (audioChunksRef s) ''audio/webm'';
          s1 = s\<lparr>console := console s @ [''Recording stopped, chunks:'']\<rparr>;
          s2 = s1\<lparr>audioChunksRef := []\<rparr>;
          s3 = s2\<lparr>effects := effects s2 @ [TrackStop (mr_stream recorder)]\<rparr>;
          s4 = cancel_frame (animationFrameRef s3) s3;
          s5 = (case audioContextRef s4 of
                  None \<Rightarrow> s4
                | Some c \<Rightarrow>
                    s4\<lparr>audioContextRef := Some (c\<lparr>ctx_closed := True\<rparr>),
                       effects := effects s4 @ [CloseAudioContext]\<rparr>);
          s6 = s5\<lparr>isRecording := False, audioLevel := 0\<rparr>;
          s7 = s6\<lparr>mediaRecorderRef := None\<rparr>
      in (audioBlob, s7))"

text \<open>
  The platform fires the queued \<open>stop\<close> event of the recorder held in the ref. With no
  event queued nothing happens. With the handler installed the event runs it and the
  result is the blob passed to \<open>resolve\<close>; with no handler it passes unobserved.
\<close>

definition stop_event :: "recorder_hook \<Rightarrow> blob option \<times> recorder_hook" where
  "stop_event s =
     (case mediaRecorderRef s of
        None \<Rightarrow> (None, s)
      | Some recorder \<Rightarrow>
          if \<not> mr_stop_queued recorder then (None, s)
          else if \<not> mr_onstop recorder
          then (None, s\<lparr>mediaRecorderRef := Some (recorder\<lparr>mr_stop_queued := False\<rparr>)\<rparr>)
          else (let (audioBlob, s1) = onstop recorder s in (Some audioBlob, s1)))"

text \<open>
  The same event for a recorder that the ref no longer holds. Its handler clears the ref
  all the same, and the recorder the ref held then is held by nothing.
\<close>

definition orphan_stop_event :: "nat \<Rightarrow> recorder_hook \<Rightarrow> blob option \<times> recorder_hook" where
  "orphan_stop_event i s =
     (if i < length (orphans s) \<and> mr_stop_queued (orphans s ! i) then
        (let recorder = orphans s ! i;
             s1 = s\<lparr>orphans := take i (orphans s) @ drop (Suc i) (orphans s)\<rparr>
         in if \<not> mr_onstop recorder then (None, s1)
            else
              (let s2 = (case mediaRecorderRef s1 of
                           None \<Rightarrow> s1
                         | Some held \<Rightarrow> s1\<lparr>orphans := orphans s1 @ [held]\<rparr>);
                   (audioBlob, s3) = onstop recorder s2
               in (Some audioBlob, s3)))
      else (None, s))"

text \<open>
  The tracks of the stream end by themselves (the device is unplugged, the permission is
  withdrawn): the platform inactivates the recorder and queues its \<open>stop\<close> event.
\<close>

definition track_ended :: "recorder_hook \<Rightarrow> recorder_hook" where
  "track_ended s =
     (case mediaRecorderRef s of
        None \<Rightarrow> s
      | Some recorder \<Rightarrow>
          if mr_state recorder = Inactive then s
          else s\<lparr>mediaRecorderRef :=
                   Some (recorder\<lparr>mr_state := Inactive, mr_stop_queued := True\<rparr>)\<rparr>)"

text \<open>
  The two states of the recorder as the code tests them: \<open>stopRecording\<close> takes the
  recorder for idle when the ref is empty, \<open>startRecording\<close> takes it for capturing when
  the ref holds a recorder that is not \<open>inactive\<close>. In the third state the ref holds an
  inactive recorder.
\<close>

definition idle :: "recorder_hook \<Rightarrow> bool" where
  "idle s = (mediaRecorderRef s = None)"

definition capturing :: "recorder_hook \<Rightarrow> bool" where
  "capturing s = (case mediaRecorderRef s of None \<Rightarrow> False | Some r \<Rightarrow> mr_state r \<noteq> Inactive)"

definition stopped_in_ref :: "recorder_hook \<Rightarrow> bool" where
  "stopped_in_ref s =
     (case mediaRecorderRef s of None \<Rightarrow> False | Some r \<Rightarrow> mr_state r = Inactive)"

text \<open>
  Awaiting \<open>stopRecording()\<close> with nothing else running in between: the executor, then
  the fragments the recorder still delivers (\<open>flush\<close>), then the \<open>stop\<close> event if one is
  queued. A promise that the executor left pending and that no event resolves stays
  pending.
\<close>

definition await_stopRecording ::
  "bool \<Rightarrow> blob list \<Rightarrow> recorder_hook \<Rightarrow> blob settled \<times> recorder_hook" where
  "await_stopRecording legacy flush s =
     (let (p, s1) = stopRecording legacy s
      in case p of
           Pending \<Rightarrow>
             (let (b, s2) = stop_event (deliver flush s1)
              in (case b of None \<Rightarrow> (Pending, s2) | Some audioBlob \<Rightarrow> (Resolved audioBlob, s2)))
         | Resolved audioBlob \<Rightarrow> (Resolved audioBlob, s1)
         | Rejected e \<Rightarrow> (Rejected e, s1))"

text \<open>
  One recording from \<open>start()\<close> to the settled \<open>stop()\<close>: the fragments \<open>before\<close> arrive
  while capturing, the fragments \<open>flush\<close> between \<open>recorder.stop()\<close> and the \<open>stop\<close>
  event. The result is what the executor left the promise in, the blob that the \<open>stop\<close>
  event passed to \<open>resolve\<close> (if the event came and the handler ran), and the final state.
\<close>

definition record_and_stop ::
  "nat \<Rightarrow> byte list \<Rightarrow> blob list \<Rightarrow> bool \<Rightarrow> blob list \<Rightarrow> recorder_hook
     \<Rightarrow> blob settled \<times> blob option \<times> recorder_hook" where
  "record_and_stop stream reading before legacy flush s =
     (let s1 = snd (startRecording (Inr stream) Started reading s);
          s2 = deliver before s1;
          (p, s3) = stopRecording legacy s2;
          s4 = deliver flush s3;
          (b, s5) = stop_event s4
      in (p, b, s5))"

text \<open>
  Histories of the hook, one step per call or event. A call of \<open>start()\<close> and its
  continuation are separate steps, and so are a call of \<open>stop()\<close> and the \<open>stop\<close> event,
  so that calls may overlap; a continuation runs only if a call is suspended.
\<close>

datatype recorder_event =
    StartCall
  | StartResume "js_error + nat" recorder_outcome "byte list"
  | Data blob
  | Frame nat "byte list"
  | StopCall bool
  | StopEvent
  | OrphanStopEvent nat
  | TrackEnded

fun recorder_step :: "recorder_hook \<Rightarrow> recorder_event \<Rightarrow> recorder_hook" where
  "recorder_step s StartCall = snd (startRecording_guard s)"
| "recorder_step s (StartResume gum made reading) =
     (if starting s = 0 then s else snd (startRecording_resume gum made reading s))"
| "recorder_step s (Data chunk) = ondataavailable chunk s"
| "recorder_step s (Frame h reading) = animation_frame h reading s"
| "recorder_step s (StopCall legacy) = snd (stopRecording legacy s)"
| "recorder_step s StopEvent = snd (stop_event s)"
| "recorder_step s (OrphanStopEvent i) = snd (orphan_stop_event i s)"
| "recorder_step s TrackEnded = track_ended s"

definition recorder_run :: "recorder_event list \<Rightarrow> recorder_hook" where
  "recorder_run evs = foldl recorder_step init_recorder evs"

text \<open>The streams acquired and not released, counted from the log of platform calls.\<close>

fun acquires :: "effect \<Rightarrow> bool" where
  "acquires (GetUserMedia st) = True"
| "acquires e = False"

fun releases :: "effect \<Rightarrow> bool" where
  "releases (TrackStop st) = True"
| "releases e = False"

definition live_streams :: "recorder_hook \<Rightarrow> nat" where
  "live_streams s =
     length (filter acquires (effects s)) - length (filter releases (effects s))"

section \<open>The session hook (\<open>src/hooks/useSession.ts\<close>)\<close>

definition SESSION_KEY :: string where
  "SESSION_KEY = ''voice_ai_session''"

text \<open>
  \<open>`session_${Date.now()}_${Math.random().toString(36).substr(2, 9)}`\<close>. The clock is a
  count of milliseconds, interpolated in decimal; \<open>r36\<close> is the string that
  \<open>Math.random().toString(36)\<close> returned, and \<open>substr(2, 9)\<close> drops its first two
  characters and keeps at most nine.
\<close>

definition digit :: "nat \<Rightarrow> char" where
  "digit d = ''0123456789'' ! d"

function decimal :: "nat \<Rightarrow> string" where
  "decimal n = (if n < 10 then [digit n] else decimal (n div 10) @ [digit (n mod 10)])"
  by pat_completeness auto
termination
  by (relation "measure (\<lambda>n. n)") auto

declare decimal.simps [simp del]

definition substr :: "nat \<Rightarrow> nat \<Rightarrow> string \<Rightarrow> string" where
  "substr start len str = take len (drop start str)"

definition generateSessionId :: "nat \<Rightarrow> string \<Rightarrow> string" where
  "generateSessionId now r36 = ''session_'' @ decimal now @ ''_'' @ substr 2 9 r36"

record session_hook =
  sessionId :: string
  localStorage :: "string \<rightharpoonup> string"

definition init_session :: "(string \<rightharpoonup> string) \<Rightarrow> session_hook" where
  "init_session store = \<lparr>sessionId = [], localStorage = store\<rparr>"

text \<open>The mount effect: an absent or empty stored value is replaced by a fresh id.\<close>

definition session_effect :: "nat \<Rightarrow> string \<Rightarrow> session_hook \<Rightarrow> session_hook" where
  "session_effect now r36 s =
     (case localStorage s SESSION_KEY of
        None \<Rightarrow>
          s\<lparr>localStorage := (localStorage s)(SESSION_KEY \<mapsto> generateSessionId now r36),
            sessionId := generateSessionId now r36\<rparr>
      | Some existingSession \<Rightarrow>
          if existingSession = [] then
            s\<lparr>localStorage := (localStorage s)(SESSION_KEY \<mapsto> generateSessionId now r36),
              sessionId := generateSessionId now r36\<rparr>
          else s\<lparr>sessionId := existingSession\<rparr>)"

definition resetSession :: "nat \<Rightarrow> string \<Rightarrow> session_hook \<Rightarrow> session_hook" where
  "resetSession now r36 s =
     (let newSession = generateSessionId now r36
      in s\<lparr>localStorage := (localStorage s)(SESSION_KEY \<mapsto> newSession),
           sessionId := newSession\<rparr>)"

section \<open>The remote exchange (\<open>src/utils/audioApi.ts\<close>)\<close>

definition API_URL :: string where
  "API_URL = ''https://n8n.pesenin.my.id/webhook/voice-agent''"

record request =
  url :: string
  http_method :: string
  form_audio :: blob
  form_filename :: string
  form_session :: string

record response =
  status :: nat
  statusText :: string
  body :: blob

text \<open>\<open>response.ok\<close> is true for the statuses 200 to 299.\<close>

definition ok :: "response \<Rightarrow> bool" where
  "ok r = (200 \<le> status r \<and> status r \<le> 299)"

text \<open>The \<open>POST\<close> request with the multipart form of \<open>sendAudioToAPI\<close>.\<close>

definition formData :: "blob \<Rightarrow> string \<Rightarrow> request" where
  "formData audioBlob session_id =
     \<lparr>url = API_URL, http_method = ''POST'', form_audio = audioBlob,
      form_filename = ''recording.webm'', form_session = session_id\<rparr>"

text \<open>
  \<open>sendAudioToAPI\<close>. \<open>fetch\<close> is the network: it answers a request with a response or
  fails. The requests made are appended to the list passed along.
\<close>

definition sendAudioToAPI ::
  "(request \<Rightarrow> js_error + response) \<Rightarrow> blob \<Rightarrow> string \<Rightarrow> request list
     \<Rightarrow> blob settled \<times> request list" where
  "sendAudioToAPI fetch audioBlob session_id net =
     (let req = formData audioBlob session_id
      in case fetch req of
           Inl e \<Rightarrow> (Rejected e, net @ [req])
         | Inr resp \<Rightarrow>
             if \<not> ok resp
             then (Rejected (Error (''API request failed: '' @ statusText resp)), net @ [req])
             else (Resolved (body resp), net @ [req]))"

section \<open>The component \<open>VoiceInterface\<close> (\<open>src/unnamed/part_001\<close>)\<close>

record toast =
  title :: string
  description :: string
  variant :: "string option"

text \<open>
  The output element: its \<open>src\<close> (an object URL, by number), whether \<open>onplay\<close> is
  assigned, and the URL that the assigned \<open>onended\<close> closure will revoke. No other
  handler is ever assigned to it.
\<close>

record html_audio =
  audio_src :: "nat option"
  audio_onplay :: bool
  audio_onended :: "nat option"

datatype source_node = MediaElementAudioSourceNode

text \<open>
  The component's state and refs, the two hooks it calls, and what the platform and the
  collaborators hold for it: scheduled animation frames of the playback sampling, live
  object URLs, the toasts shown, the requests sent.
\<close>

record voice_interface =
  useAudioRecorder :: recorder_hook
  useSession :: session_hook
  isProcessing :: bool
  isPlaying :: bool
  playbackLevel :: real
  audioRef :: "html_audio option"
  vi_audioContextRef :: "audio_context option"
  vi_analyserRef :: "analyser_node option"
  sourceRef :: "source_node option"
  vi_animationFrameRef :: "nat option"
  vi_frames :: "nat list"
  vi_nextFrame :: nat
  objectURLs :: "nat list"
  nextURL :: nat
  toasts :: "toast list"
  network :: "request list"
  vi_console :: "string list"
  vi_effects :: "effect list"

definition init_voice :: "(string \<rightharpoonup> string) \<Rightarrow> voice_interface" where
  "init_voice store =
     \<lparr>useAudioRecorder = init_recorder, useSession = init_session store,
      isProcessing = False, isPlaying = False, playbackLevel = 0,
      audioRef = None, vi_audioContextRef = None, vi_analyserRef = None, sourceRef = None,
      vi_animationFrameRef = None, vi_frames = [], vi_nextFrame = 1,
      objectURLs = [], nextURL = 1, toasts = [], network = [],
      vi_console = [], vi_effects = []\<rparr>"

definition analyzePlayback :: "byte list \<Rightarrow> voice_interface \<Rightarrow> voice_interface" where
  "analyzePlayback reading s =
     (case vi_analyserRef s of
        None \<Rightarrow> s
      | Some a \<Rightarrow>
          (case sample_level (getByteFrequencyData a reading) of
             Inl e \<Rightarrow> s
           | Inr l \<Rightarrow>
               s\<lparr>playbackLevel := l,
                 vi_animationFrameRef := Some (vi_nextFrame s),
                 vi_frames := vi_frames s @ [vi_nextFrame s],
                 vi_nextFrame := Suc (vi_nextFrame s)\<rparr>))"

definition playback_frame :: "nat \<Rightarrow> byte list \<Rightarrow> voice_interface \<Rightarrow> voice_interface" where
  "playback_frame h reading s =
     (if h \<in> set (vi_frames s)
      then analyzePlayback reading (s\<lparr>vi_frames := removeAll h (vi_frames s)\<rparr>)
      else s)"

text \<open>The two handlers that \<open>playAudioResponse\<close> assigns to the element.\<close>

definition onplay :: "byte list \<Rightarrow> voice_interface \<Rightarrow> voice_interface" where
  "onplay reading s = analyzePlayback reading (s\<lparr>isPlaying := True\<rparr>)"

definition onended :: "nat \<Rightarrow> voice_interface \<Rightarrow> voice_interface" where
  "onended audioUrl s =
     (let s1 = s\<lparr>isPlaying := False, playbackLevel := 0\<rparr>;
          s2 = (case vi_animationFrameRef s1 of
                  None \<Rightarrow> s1
                | Some h \<Rightarrow>
                    if h = 0 then s1
                    else s1\<lparr>vi_frames := removeAll h (vi_frames s1),
                            vi_effects := vi_effects s1 @ [CancelAnimationFrame h]\<rparr>)
      in s2\<lparr>objectURLs := removeAll audioUrl (objectURLs s2),
            vi_effects := vi_effects s2 @ [RevokeObjectURL audioUrl]\<rparr>)"

text \<open>
  An event of the output element reaches the handler assigned for it, if there is one.
  The element's \<open>error\<close> event has no handler in this component.
\<close>

datatype audio_event = PlayEvent | EndedEvent | ErrorEvent

definition audio_dispatch :: "audio_event \<Rightarrow> byte list \<Rightarrow> voice_interface \<Rightarrow> voice_interface" where
  "audio_dispatch ev reading s =
     (case audioRef s of
        None \<Rightarrow> s
      | Some audio \<Rightarrow>
          (case ev of
             PlayEvent \<Rightarrow> if audio_onplay audio then onplay reading s else s
           | EndedEvent \<Rightarrow> (case audio_onended audio of None \<Rightarrow> s | Some u \<Rightarrow> onended u s)
           | ErrorEvent \<Rightarrow> s))"

text \<open>
  The four guarded constructions of \<open>playAudioResponse\<close>: each builds its part of the
  playback graph only when its ref is still empty.
\<close>

definition ensure_audio :: "voice_interface \<Rightarrow> voice_interface" where
  "ensure_audio s =
     (case audioRef s of
        None \<Rightarrow>
          s\<lparr>audioRef := Some \<lparr>audio_src = None, audio_onplay = False, audio_onended = None\<rparr>,
            vi_effects := vi_effects s @ [NewAudio]\<rparr>
      | Some a \<Rightarrow> s)"

definition ensure_context :: "voice_interface \<Rightarrow> voice_interface" where
  "ensure_context s =
     (case vi_audioContextRef s of
        None \<Rightarrow>
          s\<lparr>vi_audioContextRef := Some \<lparr>ctx_closed = False\<rparr>,
            vi_effects := vi_effects s @ [NewAudioContext]\<rparr>
      | Some c \<Rightarrow> s)"

definition ensure_analyser :: "voice_interface \<Rightarrow> voice_interface" where
  "ensure_analyser s =
     (case vi_analyserRef s of
        None \<Rightarrow>
          s\<lparr>vi_analyserRef := Some \<lparr>fftSize = 256\<rparr>,
            vi_effects := vi_effects s @ [CreateAnalyser]\<rparr>
      | Some a \<Rightarrow> s)"

definition ensure_source :: "voice_interface \<Rightarrow> voice_interface" where
  "ensure_source s =
     (case sourceRef s of
        None \<Rightarrow>
          s\<lparr>sourceRef := Some MediaElementAudioSourceNode,
            vi_effects := vi_effects s @
              [CreateMediaElementSource, ConnectSourceAnalyser, ConnectAnalyserDestination]\<rparr>
      | Some n \<Rightarrow> s)"

text \<open>
  The \<open>try\<close> block of \<open>playAudioResponse\<close> up to the call of \<open>audio.play()\<close>: the object
  URL, the four constructions, the new \<open>src\<close> and the two handlers.
\<close>

definition prepare_playback :: "blob \<Rightarrow> voice_interface \<Rightarrow> voice_interface" where
  "prepare_playback audioBlob s =
     (let audioUrl = nextURL s;
          s1 = s\<lparr>nextURL := Suc (nextURL s), objectURLs := objectURLs s @ [audioUrl],
                 vi_effects := vi_effects s @ [CreateObjectURL audioUrl]\<rparr>;
          s2 = ensure_audio s1;
          s3 = ensure_context s2;
          s4 = ensure_analyser s3;
          s5 = ensure_source s4;
          s6 = s5\<lparr>audioRef :=
                    map_option (\<lambda>a. a\<lparr>audio_src := Some audioUrl, audio_onplay := True,
                                       audio_onended := Some audioUrl\<rparr>) (audioRef s5)\<rparr>
      in s6\<lparr>vi_effects := vi_effects s6 @ [AudioPlay audioUrl]\<rparr>)"

definition playback_error_toast :: toast where
  "playback_error_toast =
     \<lparr>title = ''Playback Error'', description = ''Failed to play AI response'',
      variant = Some ''destructive''\<rparr>"

text \<open>
  What \<open>audio.play()\<close> does. Playback begins: the \<open>play\<close> event is fired and the promise
  is fulfilled. Or the call is refused (playback is not allowed): the promise is rejected
  and no event is fired. Or the element starts to play and the source then fails to load
  or decode: the \<open>play\<close> event is fired first and the promise is rejected afterwards.
\<close>

datatype play_outcome = Began | Refused js_error | Failed js_error

text \<open>The \<open>catch\<close> block of \<open>playAudioResponse\<close>.\<close>

definition catch_playback :: "voice_interface \<Rightarrow> voice_interface" where
  "catch_playback s =
     s\<lparr>vi_console := vi_console s @ [''Error playing audio:''],
       isPlaying := False,
       playbackLevel := 0,
       toasts := toasts s @ [playback_error_toast]\<rparr>"

text \<open>
  \<open>playAudioResponse\<close>. \<open>play\<close> is what \<open>audio.play()\<close> does and \<open>reading\<close> what the
  analyser holds when \<open>audio.onplay\<close> samples it. The \<open>catch\<close> block swallows the error,
  so the promise of the function itself is always fulfilled.
\<close>

definition playAudioResponse ::
  "play_outcome \<Rightarrow> byte list \<Rightarrow> blob \<Rightarrow> voice_interface \<Rightarrow> unit settled \<times> voice_interface" where
  "playAudioResponse play reading audioBlob s =
     (let s7 = prepare_playback audioBlob s
      in case play of
           Began \<Rightarrow> (Resolved (), audio_dispatch PlayEvent reading s7)
         | Refused e \<Rightarrow> (Resolved (), catch_playback s7)
         | Failed e \<Rightarrow> (Resolved (), catch_playback (audio_dispatch PlayEvent reading s7)))"

text \<open>
  What the stopping branch of \<open>handleToggleRecording\<close> meets outside the component:
  which \<open>stop()\<close> algorithm the recorder runs, the fragments flushed before the \<open>stop\<close>
  event, the network, the outcome of \<open>audio.play()\<close> and the analyser's content at the
  sampling made by \<open>audio.onplay\<close>.
\<close>

record environment =
  env_legacy :: bool
  env_flush :: "blob list"
  env_fetch :: "request \<Rightarrow> js_error + response"
  env_play :: play_outcome
  env_reading :: "byte list"

text \<open>The toasts and the \<open>catch\<close> and \<open>finally\<close> blocks of the stopping branch.\<close>

definition session_error_toast :: toast where
  "session_error_toast =
     \<lparr>title = ''Session Error'', description = ''Session not initialized'',
      variant = Some ''destructive''\<rparr>"

definition error_toast :: "js_error \<Rightarrow> toast" where
  "error_toast e = \<lparr>title = ''Error'', description = message e, variant = Some ''destructive''\<rparr>"

definition catch_processing :: "js_error \<Rightarrow> voice_interface \<Rightarrow> voice_interface" where
  "catch_processing e s =
     s\<lparr>vi_console := vi_console s @ [''Error processing audio:''],
       toasts := toasts s @ [error_toast e]\<rparr>"

definition finally_processing :: "voice_interface \<Rightarrow> voice_interface" where
  "finally_processing s = s\<lparr>isProcessing := False\<rparr>"

text \<open>
  The stopping branch of \<open>handleToggleRecording\<close>, run until it returns or until it is
  suspended on a promise that nothing settles. Both buttons are disabled from
  \<open>setIsProcessing(true)\<close> on, so no click comes in between. \<open>!sessionId\<close> holds exactly
  for the empty string.
\<close>

definition toggle_stop :: "environment \<Rightarrow> voice_interface \<Rightarrow> voice_interface" where
  "toggle_stop env s =
     (let s1 = s\<lparr>isProcessing := True\<rparr>;
          (stopped, r) = await_stopRecording (env_legacy env) (env_flush env) (useAudioRecorder s1);
          s2 = s1\<lparr>useAudioRecorder := r\<rparr>
      in case stopped of
           Pending \<Rightarrow> s2
         | Rejected e \<Rightarrow> finally_processing (catch_processing e s2)
         | Resolved audioBlob \<Rightarrow>
             if sessionId (useSession s2) = [] then
               finally_processing
                 (s2\<lparr>toasts := toasts s2 @ [session_error_toast], isProcessing := False\<rparr>)
             else
               (let (sent, net) = sendAudioToAPI (env_fetch env) audioBlob
                                    (sessionId (useSession s2)) (network s2);
                    s3 = s2\<lparr>network := net\<rparr>
                in case sent of
                     Pending \<Rightarrow> s3
                   | Rejected e \<Rightarrow> finally_processing (catch_processing e s3)
                   | Resolved responseBlob \<Rightarrow>
                       finally_processing
                         (snd (playAudioResponse (env_play env) (env_reading env)
                                 responseBlob s3))))"

text \<open>
  The starting branch: what follows \<open>await startRecording()\<close> once that promise is
  settled, and the branch up to the point where \<open>startRecording\<close> is suspended at
  \<open>getUserMedia\<close>. Nothing is disabled while it is suspended there.
\<close>

definition recording_started_toast :: toast where
  "recording_started_toast =
     \<lparr>title = ''Recording Started'', description = ''Speak now...'', variant = None\<rparr>"

definition recording_error_toast :: toast where
  "recording_error_toast =
     \<lparr>title = ''Recording Error'', description = ''Failed to access microphone'',
      variant = Some ''destructive''\<rparr>"

definition toggle_started :: "unit settled \<Rightarrow> voice_interface \<Rightarrow> voice_interface" where
  "toggle_started started s =
     (case started of
        Rejected e \<Rightarrow>
          s\<lparr>vi_console := vi_console s @ [''Error starting recording:''],
            toasts := toasts s @ [recording_error_toast]\<rparr>
      | Resolved u \<Rightarrow> s\<lparr>toasts := toasts s @ [recording_started_toast]\<rparr>
      | Pending \<Rightarrow> s)"

definition toggle_start :: "voice_interface \<Rightarrow> voice_interface" where
  "toggle_start s =
     (let (started, r) = startRecording_guard (useAudioRecorder s)
      in toggle_started started (s\<lparr>useAudioRecorder := r\<rparr>))"

definition toggle_resume ::
  "js_error + nat \<Rightarrow> recorder_outcome \<Rightarrow> byte list \<Rightarrow> voice_interface \<Rightarrow> voice_interface" where
  "toggle_resume gum made reading s =
     (let (started, r) = startRecording_resume gum made reading (useAudioRecorder s)
      in toggle_started started (s\<lparr>useAudioRecorder := r\<rparr>))"

text \<open>
  \<open>handleToggleRecording\<close> from the click until it returns or is first suspended:
  the stopping branch while \<open>isRecording\<close>, the starting branch otherwise.
\<close>

definition handleToggleRecording :: "environment \<Rightarrow> voice_interface \<Rightarrow> voice_interface" where
  "handleToggleRecording env s =
     (if isRecording (useAudioRecorder s) then toggle_stop env s else toggle_start s)"

definition handleResetSession :: "nat \<Rightarrow> string \<Rightarrow> voice_interface \<Rightarrow> voice_interface" where
  "handleResetSession now r36 s =
     (let s1 = s\<lparr>useSession := resetSession now r36 (useSession s)\<rparr>
      in s1\<lparr>toasts := toasts s1 @
              [\<lparr>title = ''Session Reset'', description = ''Started a new conversation'',
                variant = None\<rparr>]\<rparr>)"

text \<open>What the component hands to the visualizer.\<close>

definition isActive :: "voice_interface \<Rightarrow> bool" where
  "isActive s = (isRecording (useAudioRecorder s) \<or> isPlaying s)"

definition currentLevel :: "voice_interface \<Rightarrow> real" where
  "currentLevel s =
     (if isRecording (useAudioRecorder s) then audioLevel (useAudioRecorder s)
      else playbackLevel s)"

text \<open>
  Histories of the component. The two buttons carry \<open>disabled\<close> attributes, so a click
  reaches its handler only when the attribute is false. The microphone settles a
  suspended \<open>startRecording\<close>, if there is one, and the starting branch goes on from
  there. The recorder's tracks may end and its \<open>stop\<close> event may fire outside any call.
\<close>

datatype ui_event =
    Mount nat string
  | ToggleClick environment
  | MicrophoneSettled "js_error + nat" recorder_outcome "byte list"
  | ResetClick nat string
  | Fragment blob
  | RecorderFrame nat "byte list"
  | RecorderTrackEnded
  | RecorderStopEvent
  | PlaybackFrame nat "byte list"
  | AudioEvent audio_event "byte list"

fun ui_step :: "voice_interface \<Rightarrow> ui_event \<Rightarrow> voice_interface" where
  "ui_step s (Mount now r36) = s\<lparr>useSession := session_effect now r36 (useSession s)\<rparr>"
| "ui_step s (ToggleClick env) =
     (if isProcessing s \<or> isPlaying s then s else handleToggleRecording env s)"
| "ui_step s (MicrophoneSettled gum made reading) =
     (if starting (useAudioRecorder s) = 0 then s else toggle_resume gum made reading s)"
| "ui_step s (ResetClick now r36) =
     (if isRecording (useAudioRecorder s) \<or> isProcessing s \<or> isPlaying s then s
      else handleResetSession now r36 s)"
| "ui_step s (Fragment chunk) = s\<lparr>useAudioRecorder := ondataavailable chunk (useAudioRecorder s)\<rparr>"
| "ui_step s (RecorderFrame h reading) =
     s\<lparr>useAudioRecorder := animation_frame h reading (useAudioRecorder s)\<rparr>"
| "ui_step s RecorderTrackEnded = s\<lparr>useAudioRecorder := track_ended (useAudioRecorder s)\<rparr>"
| "ui_step s RecorderStopEvent = s\<lparr>useAudioRecorder := snd (stop_event (useAudioRecorder s))\<rparr>"
| "ui_step s (PlaybackFrame h reading) = playback_frame h reading s"
| "ui_step s (AudioEvent ev reading) = audio_dispatch ev reading s"

definition ui_run :: "(string \<rightharpoonup> string) \<Rightarrow> ui_event list \<Rightarrow> voice_interface" where
  "ui_run store evs = foldl ui_step (init_voice store) evs"

text \<open>A sequence of \<open>play(blob)\<close> calls, each with its own outcome of \<open>audio.play()\<close>.\<close>

fun play_all ::
  "(play_outcome \<times> byte list \<times> blob) list \<Rightarrow> voice_interface \<Rightarrow> voice_interface" where
  "play_all [] s = s"
| "play_all ((play, reading, audioBlob) # calls) s =
     play_all calls (snd (playAudioResponse play reading audioBlob s))"

text \<open>The platform calls that build the playback graph.\<close>

fun builds_graph :: "effect \<Rightarrow> bool" where
  "builds_graph NewAudio = True"
| "builds_graph NewAudioContext = True"
| "builds_graph CreateAnalyser = True"
| "builds_graph CreateMediaElementSource = True"
| "builds_graph ConnectSourceAnalyser = True"
| "builds_graph ConnectAnalyserDestination = True"
| "builds_graph e = False"

definition graph_built :: "voice_interface \<Rightarrow> bool" where
  "graph_built s =
     (audioRef s \<noteq> None \<and> vi_audioContextRef s \<noteq> None \<and> vi_analyserRef s \<noteq> None \<and>
      sourceRef s \<noteq> None)"

section \<open>Invariants of the histories\<close>

text \<open>
  \<open>isRecording\<close> tells whether the ref holds a recorder. The levels stay in the unit
  interval and are 0 as long as no analyser is attached; an attached analyser has
  256-point transforms. The playback graph is either not built at all, with nothing
  built in the log, or built entirely, with each part built once.
\<close>

definition ref_inv :: "recorder_hook \<Rightarrow> bool" where
  "ref_inv s = (isRecording s = (mediaRecorderRef s \<noteq> None))"

definition graph_effects :: "effect list" where
  "graph_effects =
     [NewAudio, NewAudioContext, CreateAnalyser, CreateMediaElementSource,
      ConnectSourceAnalyser, ConnectAnalyserDestination]"

definition level_inv :: "recorder_hook \<Rightarrow> bool" where
  "level_inv s =
     ((analyserRef s = None \<longrightarrow> audioLevel s = 0) \<and> 0 \<le> audioLevel s \<and> audioLevel s \<le> 1 \<and>
      (case analyserRef s of None \<Rightarrow> True | Some a \<Rightarrow> fftSize a = 256))"

definition playback_inv :: "voice_interface \<Rightarrow> bool" where
  "playback_inv s =
     ((vi_analyserRef s = None \<longrightarrow> playbackLevel s = 0) \<and>
      0 \<le> playbackLevel s \<and> playbackLevel s \<le> 1 \<and>
      (case vi_analyserRef s of None \<Rightarrow> True | Some a \<Rightarrow> fftSize a = 256) \<and>
      (if graph_built s then filter builds_graph (vi_effects s) = graph_effects
       else audioRef s = None \<and> vi_audioContextRef s = None \<and> vi_analyserRef s = None \<and>
            sourceRef s = None \<and> filter builds_graph (vi_effects s) = []))"

definition ui_inv :: "voice_interface \<Rightarrow> bool" where
  "ui_inv s = (level_inv (useAudioRecorder s) \<and> playback_inv s)"

section \<open>The recorder: fragments, start and stop\<close>

lemma deliver_append: "deliver (xs @ ys) s = deliver ys (deliver xs s)"
  by (induction xs arbitrary: s) simp_all

lemma chunks_deliver:
  "audioChunksRef (deliver cs s) = audioChunksRef s @ filter (\<lambda>c. blob_size c > 0) cs"
  by (induction cs arbitrary: s) (simp_all add: ondataavailable_def)

lemma deliver_others:
  "mediaRecorderRef (deliver cs s) = mediaRecorderRef s"
  "frames (deliver cs s) = frames s"
  "animationFrameRef (deliver cs s) = animationFrameRef s"
  "nextFrame (deliver cs s) = nextFrame s"
  "effects (deliver cs s) = effects s"
  "audioLevel (deliver cs s) = audioLevel s"
  "analyserRef (deliver cs s) = analyserRef s"
  "isRecording (deliver cs s) = isRecording s"
  "audioContextRef (deliver cs s) = audioContextRef s"
  "orphans (deliver cs s) = orphans s"
  "starting (deliver cs s) = starting s"
  by (induction cs arbitrary: s) (simp_all add: ondataavailable_def)

lemma new_Blob_nonempty_chunks:
  "new_Blob (filter (\<lambda>c. blob_size c > 0) cs) t = new_Blob cs t"
  by (induction cs) (simp_all add: new_Blob_def blob_size_def)

lemma new_Blob_flush:
  "new_Blob (xs @ filter (\<lambda>c. blob_size c > 0) ys) t = new_Blob (xs @ ys) t"
  using new_Blob_nonempty_chunks[of ys t] by (simp add: new_Blob_def)

lemma blob_size_new_Blob:
  "blob_size (new_Blob cs t) = sum_list (map blob_size cs)"
  by (induction cs) (simp_all add: new_Blob_def blob_size_def)

lemma blob_size_empty_Blob: "blob_size empty_Blob = 0"
  by (simp add: empty_Blob_def new_Blob_def blob_size_def)

lemma length_getByteFrequencyData:
  "length (getByteFrequencyData a reading) = frequencyBinCount a"
  by (simp add: getByteFrequencyData_def)

lemma sample_level_bins:
  "0 < frequencyBinCount a \<Longrightarrow>
   sample_level (getByteFrequencyData a reading) = Inr (average (getByteFrequencyData a reading) / 255)"
  using length_getByteFrequencyData[of a reading]
  by (auto simp add: sample_level_def)

lemma sample_level_256:
  "sample_level (getByteFrequencyData \<lparr>fftSize = 256\<rparr> reading) =
     Inr (average (getByteFrequencyData \<lparr>fftSize = 256\<rparr> reading) / 255)"
  by (rule sample_level_bins) (simp add: frequencyBinCount_def)

lemma guard_blocked:
  "capturing s \<Longrightarrow>
   startRecording_guard s =
     (Resolved (), s\<lparr>console := console s @ [''Previous recording still active, waiting...'']\<rparr>)"
  by (simp add: startRecording_guard_def capturing_def)

lemma guard_passes:
  "\<not> capturing s \<Longrightarrow> startRecording_guard s = (Pending, s\<lparr>starting := Suc (starting s)\<rparr>)"
  by (simp add: startRecording_guard_def capturing_def)

lemma resume_started:
  "fst (startRecording_resume (Inr stream) Started reading s) = Resolved ()"
  "mediaRecorderRef (snd (startRecording_resume (Inr stream) Started reading s)) =
     Some \<lparr>mr_stream = stream, mr_state = Recording, mr_onstop = False, mr_stop_queued = False\<rparr>"
  "audioChunksRef (snd (startRecording_resume (Inr stream) Started reading s)) = []"
  "isRecording (snd (startRecording_resume (Inr stream) Started reading s))"
  "frames (snd (startRecording_resume (Inr stream) Started reading s)) = frames s @ [nextFrame s]"
  "animationFrameRef (snd (startRecording_resume (Inr stream) Started reading s)) =
     Some (nextFrame s)"
  "nextFrame (snd (startRecording_resume (Inr stream) Started reading s)) = Suc (nextFrame s)"
  "effects (snd (startRecording_resume (Inr stream) Started reading s)) =
     effects s @ [GetUserMedia stream, NewAudioContext, CreateAnalyser,
                  CreateMediaStreamSource stream, ConnectSourceAnalyser,
                  NewMediaRecorder stream, RecorderStart]"
  "analyserRef (snd (startRecording_resume (Inr stream) Started reading s)) =
     Some \<lparr>fftSize = 256\<rparr>"
  "starting (snd (startRecording_resume (Inr stream) Started reading s)) = starting s - 1"
  by (simp_all add: startRecording_resume_def analyzeAudio_def Let_def sample_level_256)

lemma resume_orphans:
  "orphans (snd (startRecording_resume (Inr stream) Started reading s)) =
     (case mediaRecorderRef s of None \<Rightarrow> orphans s | Some old \<Rightarrow> orphans s @ [old])"
  by (cases "mediaRecorderRef s")
    (simp_all add: startRecording_resume_def analyzeAudio_def Let_def sample_level_256)

lemma start_is_resume:
  "\<not> capturing s \<Longrightarrow>
   startRecording gum made reading s =
     startRecording_resume gum made reading (s\<lparr>starting := Suc (starting s)\<rparr>)"
  by (simp add: startRecording_def guard_passes)

lemma start_blocked:
  "capturing s \<Longrightarrow>
   startRecording gum made reading s =
     (Resolved (), s\<lparr>console := console s @ [''Previous recording still active, waiting...'']\<rparr>)"
  by (simp add: startRecording_def guard_blocked)

lemma start_recorder:
  "\<not> capturing s \<Longrightarrow>
   mediaRecorderRef (snd (startRecording (Inr stream) Started reading s)) =
     Some \<lparr>mr_stream = stream, mr_state = Recording, mr_onstop = False, mr_stop_queued = False\<rparr>"
  by (simp add: start_is_resume resume_started)

lemma start_chunks:
  "\<not> capturing s \<Longrightarrow> audioChunksRef (snd (startRecording (Inr stream) Started reading s)) = []"
  by (simp add: start_is_resume resume_started)

lemma start_flag:
  "\<not> capturing s \<Longrightarrow> isRecording (snd (startRecording (Inr stream) Started reading s))"
  by (simp add: start_is_resume resume_started)

lemma stop_active:
  "mediaRecorderRef s = Some r \<Longrightarrow> mr_state r \<noteq> Inactive \<Longrightarrow>
   stopRecording legacy s =
     (Pending,
      s\<lparr>mediaRecorderRef :=
          Some (r\<lparr>mr_onstop := True, mr_state := Inactive, mr_stop_queued := True\<rparr>),
        effects := effects s @ [RecorderStop]\<rparr>)"
  by (simp add: stopRecording_def Let_def)

lemma stop_idle: "idle s \<Longrightarrow> stopRecording legacy s = (Resolved empty_Blob, s)"
  by (simp add: stopRecording_def idle_def)

lemma stop_inactive:
  "mediaRecorderRef s = Some r \<Longrightarrow> mr_state r = Inactive \<Longrightarrow>
   stopRecording legacy s =
     (if legacy
      then Rejected (DOMException ''InvalidStateError'' ''The MediaRecorder is inactive'')
      else Pending,
      s\<lparr>mediaRecorderRef := Some (r\<lparr>mr_onstop := True\<rparr>)\<rparr>)"
  by (simp add: stopRecording_def Let_def)

lemma onstop_fields:
  "fst (onstop r s) = new_Blob (audioChunksRef s) ''audio/webm''"
  "audioChunksRef (snd (onstop r s)) = []"
  "mediaRecorderRef (snd (onstop r s)) = None"
  "isRecording (snd (onstop r s)) = False"
  "audioLevel (snd (onstop r s)) = 0"
  "analyserRef (snd (onstop r s)) = analyserRef s"
  "starting (snd (onstop r s)) = starting s"
  by (simp_all add: onstop_def Let_def cancel_frame_def split: option.splits)

lemma onstop_keeps_requests:
  "count_list (effects (snd (onstop r s))) RecorderStop = count_list (effects s) RecorderStop"
  by (simp add: onstop_def Let_def cancel_frame_def split: option.splits)

lemma stop_event_fires:
  assumes "mediaRecorderRef s = Some r" "mr_stop_queued r" "mr_onstop r"
  shows "stop_event s = (Some (new_Blob (audioChunksRef s) ''audio/webm''), snd (onstop r s))"
  using assms by (simp add: stop_event_def split_def onstop_fields(1))

lemma record_and_stop_result:
  assumes free: "\<not> capturing s"
  shows "fst (record_and_stop stream d before legacy flush s) = Pending"
    and "fst (snd (record_and_stop stream d before legacy flush s)) =
           Some (new_Blob (before @ flush) ''audio/webm'')"
    and "idle (snd (snd (record_and_stop stream d before legacy flush s)))"
    and "audioChunksRef (snd (snd (record_and_stop stream d before legacy flush s))) = []"
    and "count_list (effects (snd (snd (record_and_stop stream d before legacy flush s))))
           RecorderStop = Suc (count_list (effects s) RecorderStop)"
proof -
  define s1 where "s1 = snd (startRecording (Inr stream) Started d s)"
  define s2 where "s2 = deliver before s1"
  define r where "r = \<lparr>mr_stream = stream, mr_state = Recording, mr_onstop = False,
                        mr_stop_queued = False\<rparr>"
  define r' where "r' = r\<lparr>mr_onstop := True, mr_state := Inactive, mr_stop_queued := True\<rparr>"
  define s3 where "s3 = s2\<lparr>mediaRecorderRef := Some r',
                effects := effects s2 @ [RecorderStop]\<rparr>"
  define s4 where "s4 = deliver flush s3"
  have ref2: "mediaRecorderRef s2 = Some r"
    using start_recorder[OF free] by (simp add: s2_def s1_def r_def deliver_others)
  have act: "mr_state r \<noteq> Inactive"
    by (simp add: r_def)
  have stop: "stopRecording legacy s2 = (Pending, s3)"
    using stop_active[OF ref2 act] by (simp add: s3_def r'_def)
  have chunks2: "audioChunksRef s2 = filter (\<lambda>c. blob_size c > 0) before"
    using start_chunks[OF free] by (simp add: s2_def s1_def chunks_deliver)
  have chunks4: "audioChunksRef s4 = filter (\<lambda>c. blob_size c > 0) (before @ flush)"
    using chunks2 by (simp add: s4_def s3_def chunks_deliver)
  have ref4: "mediaRecorderRef s4 = Some r'"
    by (simp add: s4_def s3_def deliver_others)
  have q: "mr_stop_queued r'" and inst: "mr_onstop r'"
    by (simp_all add: r'_def)
  note ev = stop_event_fires[OF ref4 q inst]
  have run: "record_and_stop stream d before legacy flush s =
     (Pending, Some (new_Blob (audioChunksRef s4) ''audio/webm''), snd (onstop r' s4))"
    using ev stop
    by (simp add: record_and_stop_def Let_def split_def flip: s1_def s2_def s4_def)
  show "fst (record_and_stop stream d before legacy flush s) = Pending"
    by (simp add: run)
  show "fst (snd (record_and_stop stream d before legacy flush s)) =
           Some (new_Blob (before @ flush) ''audio/webm'')"
    by (simp only: run fst_conv snd_conv chunks4 new_Blob_nonempty_chunks)
  show "idle (snd (snd (record_and_stop stream d before legacy flush s)))"
    by (simp add: run idle_def onstop_fields)
  show "audioChunksRef (snd (snd (record_and_stop stream d before legacy flush s))) = []"
    by (simp add: run onstop_fields)
  have "effects s1 = effects s @ [GetUserMedia stream, NewAudioContext, CreateAnalyser,
          CreateMediaStreamSource stream, ConnectSourceAnalyser, NewMediaRecorder stream,
          RecorderStart]"
    unfolding s1_def by (simp add: start_is_resume[OF free] resume_started)
  then have "count_list (effects s4) RecorderStop = Suc (count_list (effects s) RecorderStop)"
    by (simp add: s4_def s3_def s2_def deliver_others)
  then show "count_list (effects (snd (snd (record_and_stop stream d before legacy flush s))))
           RecorderStop = Suc (count_list (effects s) RecorderStop)"
    by (simp add: run onstop_keeps_requests)
qed

lemma await_stop_idle:
  "idle s \<Longrightarrow> await_stopRecording legacy flush s = (Resolved empty_Blob, s)"
  by (simp add: await_stopRecording_def stop_idle)

lemma await_stop_capturing:
  assumes "capturing s"
  shows "fst (await_stopRecording legacy flush s) =
           Resolved (new_Blob (audioChunksRef s @ flush) ''audio/webm'')"
    and "mediaRecorderRef (snd (await_stopRecording legacy flush s)) = None"
    and "audioLevel (snd (await_stopRecording legacy flush s)) = 0"
    and "isRecording (snd (await_stopRecording legacy flush s)) = False"
    and "analyserRef (snd (await_stopRecording legacy flush s)) = analyserRef s"
    and "count_list (effects (snd (await_stopRecording legacy flush s))) RecorderStop =
           Suc (count_list (effects s) RecorderStop)"
proof -
  from assms obtain r where r: "mediaRecorderRef s = Some r" "mr_state r \<noteq> Inactive"
    by (auto simp add: capturing_def split: option.splits)
  define r' where "r' = r\<lparr>mr_onstop := True, mr_state := Inactive, mr_stop_queued := True\<rparr>"
  define s1 where "s1 = s\<lparr>mediaRecorderRef := Some r',
                effects := effects s @ [RecorderStop]\<rparr>"
  have stop: "stopRecording legacy s = (Pending, s1)"
    using stop_active[OF r] by (simp add: s1_def r'_def)
  have ref: "mediaRecorderRef (deliver flush s1) = Some r'"
    by (simp add: deliver_others s1_def)
  have q: "mr_stop_queued r'" and inst: "mr_onstop r'"
    by (simp_all add: r'_def)
  note ev = stop_event_fires[OF ref q inst]
  have same: "analyserRef s1 = analyserRef s" "audioChunksRef s1 = audioChunksRef s"
    by (simp_all add: s1_def)
  have run: "await_stopRecording legacy flush s =
      (Resolved (new_Blob (audioChunksRef (deliver flush s1)) ''audio/webm''),
       snd (onstop r' (deliver flush s1)))"
    using ev stop by (simp add: await_stopRecording_def split_def Let_def)
  show "fst (await_stopRecording legacy flush s) =
           Resolved (new_Blob (audioChunksRef s @ flush) ''audio/webm'')"
    by (simp add: run chunks_deliver same new_Blob_flush)
  show "mediaRecorderRef (snd (await_stopRecording legacy flush s)) = None"
    by (simp add: run onstop_fields)
  show "audioLevel (snd (await_stopRecording legacy flush s)) = 0"
    by (simp add: run onstop_fields)
  show "isRecording (snd (await_stopRecording legacy flush s)) = False"
    by (simp add: run onstop_fields)
  show "analyserRef (snd (await_stopRecording legacy flush s)) = analyserRef s"
    by (simp add: run onstop_fields deliver_others same)
  show "count_list (effects (snd (await_stopRecording legacy flush s))) RecorderStop =
           Suc (count_list (effects s) RecorderStop)"
    by (simp add: run onstop_keeps_requests deliver_others s1_def)
qed

lemma ref_inv_init: "ref_inv init_recorder"
  by (simp add: ref_inv_def init_recorder_def)

lemma ref_inv_onstop: "ref_inv (snd (onstop r s))"
  by (simp add: ref_inv_def onstop_fields)

lemma ref_inv_guard: "ref_inv s \<Longrightarrow> ref_inv (snd (startRecording_guard s))"
  by (simp add: ref_inv_def startRecording_guard_def)

lemma ref_inv_resume:
  "ref_inv s \<Longrightarrow> ref_inv (snd (startRecording_resume gum made reading s))"
  by (simp add: ref_inv_def startRecording_resume_def analyzeAudio_def Let_def sample_level_256
      split: sum.splits recorder_outcome.splits)

lemma ref_inv_data: "ref_inv s \<Longrightarrow> ref_inv (ondataavailable c s)"
  by (simp add: ref_inv_def ondataavailable_def)

lemma ref_inv_frame: "ref_inv s \<Longrightarrow> ref_inv (animation_frame h reading s)"
  by (simp add: ref_inv_def animation_frame_def analyzeAudio_def split: option.splits sum.splits)

lemma ref_inv_stop: "ref_inv s \<Longrightarrow> ref_inv (snd (stopRecording legacy s))"
  by (simp add: ref_inv_def stopRecording_def Let_def split: option.splits)

lemma ref_inv_stop_event: "ref_inv s \<Longrightarrow> ref_inv (snd (stop_event s))"
  by (simp add: stop_event_def split_def Let_def ref_inv_def onstop_fields split: option.splits)

lemma ref_inv_orphan_stop_event: "ref_inv s \<Longrightarrow> ref_inv (snd (orphan_stop_event i s))"
  by (simp add: orphan_stop_event_def split_def Let_def ref_inv_def onstop_fields)

lemma ref_inv_track_ended: "ref_inv s \<Longrightarrow> ref_inv (track_ended s)"
  by (simp add: ref_inv_def track_ended_def split: option.splits)

lemma ref_inv_step: "ref_inv s \<Longrightarrow> ref_inv (recorder_step s ev)"
  by (cases ev)
    (simp_all add: ref_inv_guard ref_inv_resume ref_inv_data ref_inv_frame ref_inv_stop
      ref_inv_stop_event ref_inv_orphan_stop_event ref_inv_track_ended)

lemma ref_inv_foldl: "ref_inv s \<Longrightarrow> ref_inv (foldl recorder_step s evs)"
  by (induction evs arbitrary: s) (simp_all add: ref_inv_step)

lemma ref_inv_run: "ref_inv (recorder_run evs)"
  by (simp add: recorder_run_def ref_inv_foldl ref_inv_init)

lemma not_recording_idle: "\<not> isRecording (recorder_run evs) \<Longrightarrow> idle (recorder_run evs)"
  using ref_inv_run[of evs] by (simp add: ref_inv_def idle_def)

lemma stop_never_rejects:
  "idle s \<or> capturing s \<Longrightarrow> fst (stopRecording legacy s) \<noteq> Rejected e"
  by (auto simp add: stopRecording_def idle_def capturing_def Let_def split: option.splits)

lemma await_stop_resolves:
  "idle s \<or> capturing s \<Longrightarrow> \<exists>b. fst (await_stopRecording legacy flush s) = Resolved b"
  by (auto simp add: await_stop_idle await_stop_capturing(1))

text \<open>
  C1. For every recording that \<open>start()\<close> begins from a recorder that is not capturing:
  \<open>stop()\<close> installs its handler and calls \<open>recorder.stop()\<close> once, which leaves its promise
  pending; the \<open>stop\<close> event queued by that call then resolves the promise with the blob
  of all fragments delivered between start and stop, concatenated in arrival order. The
  bytes of the blob are the concatenation of theirs and its size is the sum of their
  sizes.
\<close>

theorem recorded_blob_is_all_fragments_in_order:
  assumes "\<not> capturing s"
  shows "fst (record_and_stop stream reading before legacy flush s) = Pending
       \<and> fst (snd (record_and_stop stream reading before legacy flush s)) =
           Some (new_Blob (before @ flush) ''audio/webm'')
       \<and> bytes (new_Blob (before @ flush) ''audio/webm'') = concat (map bytes (before @ flush))
       \<and> blob_size (new_Blob (before @ flush) ''audio/webm'') =
           sum_list (map blob_size (before @ flush))
       \<and> count_list (effects (snd (snd (record_and_stop stream reading before legacy flush s))))
           RecorderStop = Suc (count_list (effects s) RecorderStop)"
  using record_and_stop_result(1,2,5)[OF assms]
  by (simp add: blob_size_new_Blob) (simp add: new_Blob_def)

theorem recorded_blob_witness:
  "\<not> capturing init_recorder
   \<and> fst (snd (record_and_stop 7 [] [\<lparr>bytes = [1, 2], mime = ''audio/webm''\<rparr>, empty_Blob] False
                  [\<lparr>bytes = [3], mime = ''audio/webm''\<rparr>] init_recorder)) =
       Some \<lparr>bytes = [1, 2, 3], mime = ''audio/webm''\<rparr>
   \<and> blob_size \<lparr>bytes = [1, 2, 3], mime = ''audio/webm''\<rparr> = 3"
proof -
  have free: "\<not> capturing init_recorder"
    by (simp add: capturing_def init_recorder_def)
  show ?thesis
    using free recorded_blob_is_all_fragments_in_order[OF free, of 7 "[]"
        "[\<lparr>bytes = [1, 2], mime = ''audio/webm''\<rparr>, empty_Blob]" False
        "[\<lparr>bytes = [3], mime = ''audio/webm''\<rparr>]"]
    by (simp add: new_Blob_def empty_Blob_def blob_size_def)
qed

text \<open>
  Without the call of \<open>recorder.stop()\<close> no \<open>stop\<close> event is queued for a recorder that is
  capturing, and no blob is passed to anyone.
\<close>

lemma stop_event_needs_request:
  "mediaRecorderRef s = Some r \<Longrightarrow> \<not> mr_stop_queued r \<Longrightarrow> stop_event s = (None, s)"
  by (simp add: stop_event_def)

lemma no_stop_no_blob:
  "\<not> capturing s \<Longrightarrow>
   stop_event (deliver cs (snd (startRecording (Inr stream) Started reading s))) =
     (None, deliver cs (snd (startRecording (Inr stream) Started reading s)))"
  by (rule stop_event_needs_request[where r = "\<lparr>mr_stream = stream, mr_state = Recording,
         mr_onstop = False, mr_stop_queued = False\<rparr>"])
    (simp_all add: deliver_others start_recorder)

text \<open>
  C3. While the recorder is idle, \<open>stop()\<close> resolves at once with \<open>new Blob()\<close>, whose
  size is 0, and changes nothing. The recorder is idle before any recording, it is idle
  again when a recording has completed, and in every history of the hook, overlapping
  calls and tracks that end by themselves included, it is idle whenever \<open>isRecording\<close>
  is false.
\<close>

theorem stop_while_idle_resolves_empty:
  "(idle s \<longrightarrow> stopRecording legacy s = (Resolved empty_Blob, s))
   \<and> blob_size empty_Blob = 0
   \<and> idle init_recorder
   \<and> (\<not> capturing s0 \<longrightarrow>
        idle (snd (snd (record_and_stop stream reading before legacy flush s0))))
   \<and> (\<not> isRecording (recorder_run evs) \<longrightarrow> idle (recorder_run evs))"
  by (simp add: stop_idle blob_size_empty_Blob record_and_stop_result(3) not_recording_idle)
    (simp add: idle_def init_recorder_def)

lemma run_start_stop:
  "recorder_run [StartCall, StartResume (Inr 7) Started [], StopCall False, StopEvent] =
     snd (snd (record_and_stop 7 [] [] False [] init_recorder))"
  by (simp add: recorder_run_def record_and_stop_def startRecording_def guard_passes
      capturing_def init_recorder_def split_def Let_def)

theorem stop_while_idle_witness:
  "idle init_recorder
   \<and> stopRecording False init_recorder = (Resolved \<lparr>bytes = [], mime = []\<rparr>, init_recorder)
   \<and> \<not> capturing init_recorder
   \<and> stopRecording False
        (snd (snd (record_and_stop 7 [] [\<lparr>bytes = [1], mime = []\<rparr>] False [] init_recorder))) =
      (Resolved \<lparr>bytes = [], mime = []\<rparr>,
       snd (snd (record_and_stop 7 [] [\<lparr>bytes = [1], mime = []\<rparr>] False [] init_recorder)))
   \<and> \<not> isRecording
         (recorder_run [StartCall, StartResume (Inr 7) Started [], StopCall False, StopEvent])
   \<and> fst (stopRecording False
         (recorder_run [StartCall, StartResume (Inr 7) Started [], StopCall False, StopEvent])) =
       Resolved \<lparr>bytes = [], mime = []\<rparr>"
proof -
  have free: "\<not> capturing init_recorder"
    by (simp add: capturing_def init_recorder_def)
  have i0: "idle init_recorder"
    by (simp add: idle_def init_recorder_def)
  have nr: "\<not> isRecording
         (recorder_run [StartCall, StartResume (Inr 7) Started [], StopCall False, StopEvent])"
    using record_and_stop_result(3)[OF free, of 7 "[]" "[]" False "[]"] 
      ref_inv_run[of "[StartCall, StartResume (Inr 7) Started [], StopCall False, StopEvent]"]
    by (simp add: run_start_stop idle_def ref_inv_def)
  note a = stop_while_idle_resolves_empty[of init_recorder False init_recorder 7 "[]"
        "[\<lparr>bytes = [1], mime = []\<rparr>]" "[]"
        "[StartCall, StartResume (Inr 7) Started [], StopCall False, StopEvent]"]
  note b = stop_while_idle_resolves_empty[of
        "snd (snd (record_and_stop 7 [] [\<lparr>bytes = [1], mime = []\<rparr>] False [] init_recorder))"
        False init_recorder 7 "[]"
        "[\<lparr>bytes = [1], mime = []\<rparr>]" "[]"
        "[StartCall, StartResume (Inr 7) Started [], StopCall False, StopEvent]"]
  note d = stop_while_idle_resolves_empty[of
        "recorder_run [StartCall, StartResume (Inr 7) Started [], StopCall False, StopEvent]"
        False init_recorder 7 "[]"
        "[\<lparr>bytes = [1], mime = []\<rparr>]" "[]"
        "[StartCall, StartResume (Inr 7) Started [], StopCall False, StopEvent]"]
  show ?thesis
    using free i0 nr a b d
    by (simp add: empty_Blob_def new_Blob_def)
qed

text \<open>Two calls of \<open>start()\<close> that are both suspended before either continues.\<close>

lemma resume_starting:
  "starting (snd (startRecording_resume gum made reading s)) = starting s - 1"
  by (simp add: startRecording_resume_def analyzeAudio_def Let_def sample_level_256
      split: sum.splits recorder_outcome.splits)

lemma two_starts_run:
  "recorder_run [StartCall, StartCall, StartResume g1 m1 r1, StartResume g2 m2 r2] =
     snd (startRecording_resume g2 m2 r2
       (snd (startRecording_resume g1 m1 r1 (init_recorder\<lparr>starting := Suc (Suc 0)\<rparr>))))"
proof -
  have g1: "startRecording_guard init_recorder = (Pending, init_recorder\<lparr>starting := Suc 0\<rparr>)"
    by (simp add: startRecording_guard_def init_recorder_def)
  have g2: "startRecording_guard (init_recorder\<lparr>starting := Suc 0\<rparr>) =
      (Pending, init_recorder\<lparr>starting := Suc (Suc 0)\<rparr>)"
    by (simp add: startRecording_guard_def init_recorder_def)
  show ?thesis
    by (simp add: recorder_run_def g1 g2 resume_starting)
qed

lemma two_starts:
  "mediaRecorderRef (recorder_run [StartCall, StartCall, StartResume (Inr 7) Started [],
                 StartResume (Inr 8) Started []]) =
     Some \<lparr>mr_stream = 8, mr_state = Recording, mr_onstop = False, mr_stop_queued = False\<rparr>"
  "orphans (recorder_run [StartCall, StartCall, StartResume (Inr 7) Started [],
                 StartResume (Inr 8) Started []]) =
     [\<lparr>mr_stream = 7, mr_state = Recording, mr_onstop = False, mr_stop_queued = False\<rparr>]"
  "frames (recorder_run [StartCall, StartCall, StartResume (Inr 7) Started [],
                 StartResume (Inr 8) Started []]) = [1, 2]"
  "effects (recorder_run [StartCall, StartCall, StartResume (Inr 7) Started [],
                 StartResume (Inr 8) Started []]) =
     [GetUserMedia 7, NewAudioContext, CreateAnalyser, CreateMediaStreamSource 7,
      ConnectSourceAnalyser, NewMediaRecorder 7, RecorderStart,
      GetUserMedia 8, NewAudioContext, CreateAnalyser, CreateMediaStreamSource 8,
      ConnectSourceAnalyser, NewMediaRecorder 8, RecorderStart]"
  by (simp_all add: two_starts_run resume_started resume_orphans)
    (simp_all add: init_recorder_def)

section \<open>Session ids\<close>

lemma of_char_digit:
  assumes "d < 10"
  shows "(of_char (digit d) :: nat) = 48 + d"
proof -
  from assms consider "d = 0" | "d = 1" | "d = 2" | "d = 3" | "d = 4"
    | "d = 5" | "d = 6" | "d = 7" | "d = 8" | "d = 9"
    by atomize_elim arith
  then show ?thesis
    by cases (simp_all add: digit_def)
qed

lemma digit_inj:
  assumes "d < 10" "d' < 10" "digit d = digit d'"
  shows "d = d'"
proof -
  have "48 + d = (of_char (digit d) :: nat)"
    using assms(1) by (rule of_char_digit[symmetric])
  also have "\<dots> = of_char (digit d')"
    by (simp only: assms(3))
  also have "\<dots> = 48 + d'"
    using assms(2) by (rule of_char_digit)
  finally show ?thesis by simp
qed

lemma digit_not_underscore: "d < 10 \<Longrightarrow> digit d \<noteq> CHR ''_''"
proof
  assume small: "d < 10" and eq: "digit d = CHR ''_''"
  have "(of_char (CHR ''_'') :: nat) = of_char (digit d)"
    by (simp only: eq)
  also have "\<dots> = 48 + d"
    using small by (rule of_char_digit)
  finally have "(95 :: nat) = 48 + d" by simp
  with small show False by simp
qed

lemma decimal_nonempty: "decimal n \<noteq> []"
  by (subst decimal.simps) simp

lemma decimal_no_underscore: "CHR ''_'' \<notin> set (decimal n)"
proof (induction n rule: decimal.induct)
  case (1 n)
  show ?case
  proof (cases "n < 10")
    case True
    then show ?thesis
      using digit_not_underscore[of n] by (subst decimal.simps) auto
  next
    case False
    then show ?thesis
      using "1.IH" digit_not_underscore[of "n mod 10"]
      by (subst decimal.simps) auto
  qed
qed

lemma decimal_inj: "decimal n = decimal m \<Longrightarrow> n = m"
proof (induction n arbitrary: m rule: decimal.induct)
  case (1 n)
  show ?case
  proof (cases "n < 10")
    case small: True
    show ?thesis
    proof (cases "m < 10")
      case True
      with small "1.prems" have "digit n = digit m"
        by (simp add: decimal.simps[of n] decimal.simps[of m])
      with small True show ?thesis
        by (rule digit_inj)
    next
      case False
      with small "1.prems" decimal_nonempty[of "m div 10"] show ?thesis
        by (simp add: decimal.simps[of n] decimal.simps[of m] Cons_eq_append_conv)
    qed
  next
    case big: False
    show ?thesis
    proof (cases "m < 10")
      case True
      with big "1.prems" decimal_nonempty[of "n div 10"] show ?thesis
        by (simp add: decimal.simps[of n] decimal.simps[of m] append_eq_Cons_conv)
    next
      case False
      with big "1.prems" have eq: "decimal (n div 10) = decimal (m div 10)"
        and last: "digit (n mod 10) = digit (m mod 10)"
        by (simp_all add: decimal.simps[of n] decimal.simps[of m])
      from "1.IH"[OF big eq] have q: "n div 10 = m div 10" .
      have r: "n mod 10 = m mod 10"
        by (rule digit_inj[OF _ _ last]) simp_all
      have "n = n div 10 * 10 + n mod 10"
        by simp
      also have "\<dots> = m div 10 * 10 + m mod 10"
        by (simp only: q r)
      also have "\<dots> = m"
        by simp
      finally show ?thesis .
    qed
  qed
qed

lemma split_at_first:
  assumes "x \<notin> set xs" "x \<notin> set xs'" "xs @ x # ys = xs' @ x # ys'"
  shows "xs = xs' \<and> ys = ys'"
proof -
  have "takeWhile (\<lambda>c. c \<noteq> x) (xs @ x # ys) = xs"
    using assms(1) by (subst takeWhile_append2) auto
  moreover have "takeWhile (\<lambda>c. c \<noteq> x) (xs' @ x # ys') = xs'"
    using assms(2) by (subst takeWhile_append2) auto
  ultimately have "xs = xs'"
    using assms(3) by simp
  with assms(3) show ?thesis by simp
qed

lemma generateSessionId_nonempty: "generateSessionId now r36 \<noteq> []"
  by (simp add: generateSessionId_def)

lemma generateSessionId_eq_iff:
  "generateSessionId t r = generateSessionId t' r' \<longleftrightarrow> t = t' \<and> substr 2 9 r = substr 2 9 r'"
proof
  assume "generateSessionId t r = generateSessionId t' r'"
  then have "decimal t @ CHR ''_'' # substr 2 9 r = decimal t' @ CHR ''_'' # substr 2 9 r'"
    by (simp add: generateSessionId_def)
  with decimal_no_underscore decimal_no_underscore
  have "decimal t = decimal t' \<and> substr 2 9 r = substr 2 9 r'"
    by (rule split_at_first)
  then show "t = t' \<and> substr 2 9 r = substr 2 9 r'"
    using decimal_inj[of t t'] by simp
next
  assume "t = t' \<and> substr 2 9 r = substr 2 9 r'"
  then show "generateSessionId t r = generateSessionId t' r'"
    by (simp add: generateSessionId_def)
qed

text \<open>
  C9, as the code has it. Every \<open>resetSession\<close> stores a non-empty id, the one generated
  from the clock and the random fragment of that call, in the state and under the
  storage key, in place of the previous one. Two consecutive resets give distinct ids
  exactly when their clock readings differ or their nine-character random fragments
  differ. \<open>handleResetSession\<close> leaves the recorder, \<open>isProcessing\<close> and \<open>isPlaying\<close> as
  they were, in every state.
\<close>

theorem reset_replaces_session_id:
  "sessionId (resetSession now r36 s) \<noteq> []
   \<and> sessionId (resetSession now r36 s) = generateSessionId now r36
   \<and> localStorage (resetSession now r36 s) SESSION_KEY = Some (generateSessionId now r36)
   \<and> (sessionId (resetSession now2 r2 (resetSession now1 r1 s)) \<noteq>
        sessionId (resetSession now1 r1 s))
      = (now1 \<noteq> now2 \<or> substr 2 9 r1 \<noteq> substr 2 9 r2)
   \<and> useAudioRecorder (handleResetSession now r36 v) = useAudioRecorder v
   \<and> isProcessing (handleResetSession now r36 v) = isProcessing v
   \<and> isPlaying (handleResetSession now r36 v) = isPlaying v
   \<and> sessionId (useSession (handleResetSession now r36 v)) = generateSessionId now r36"
  by (simp add: resetSession_def handleResetSession_def Let_def generateSessionId_nonempty
      generateSessionId_eq_iff) auto

theorem reset_witness:
  "(1700000000000 :: nat) \<noteq> 1700000000001
   \<and> sessionId (resetSession 1700000000001 ''0.4fzyo82mvyr'' 
        (resetSession 1700000000000 ''0.4fzyo82mvyr'' (init_session Map.empty)))
     \<noteq> sessionId (resetSession 1700000000000 ''0.4fzyo82mvyr'' (init_session Map.empty))
   \<and> sessionId (resetSession 1700000000000 ''0.4fzyo82mvyr'' (init_session Map.empty)) \<noteq> []"
proof -
  note inst = reset_replaces_session_id[of 1700000000000 "''0.4fzyo82mvyr''"
      "init_session Map.empty" 1700000000001 "''0.4fzyo82mvyr''" 1700000000000
      "''0.4fzyo82mvyr''" "init_voice Map.empty"]
  from inst have nonempty:
    "sessionId (resetSession 1700000000000 ''0.4fzyo82mvyr'' (init_session Map.empty)) \<noteq> []"
    by (rule conjunct1)
  from inst have distinct:
    "(sessionId (resetSession 1700000000001 ''0.4fzyo82mvyr''
        (resetSession 1700000000000 ''0.4fzyo82mvyr'' (init_session Map.empty)))
     \<noteq> sessionId (resetSession 1700000000000 ''0.4fzyo82mvyr'' (init_session Map.empty)))
     = ((1700000000000 :: nat) \<noteq> 1700000000001 \<or>
        substr 2 9 ''0.4fzyo82mvyr'' \<noteq> substr 2 9 ''0.4fzyo82mvyr'')"
    by (elim conjE)
  have clock: "(1700000000000 :: nat) \<noteq> 1700000000001" by simp
  from clock have "(1700000000000 :: nat) \<noteq> 1700000000001 \<or>
        substr 2 9 ''0.4fzyo82mvyr'' \<noteq> substr 2 9 ''0.4fzyo82mvyr''" by (rule disjI1)
  with distinct have
    "sessionId (resetSession 1700000000001 ''0.4fzyo82mvyr''
        (resetSession 1700000000000 ''0.4fzyo82mvyr'' (init_session Map.empty)))
     \<noteq> sessionId (resetSession 1700000000000 ''0.4fzyo82mvyr'' (init_session Map.empty))"
    by (rule iffD2)
  with clock nonempty show ?thesis by (intro conjI)
qed

text \<open>
  C9, as stated, fails: two resets within the same millisecond whose random numbers
  agree on their first nine base-36 digits store the same id.
\<close>

theorem same_clock_and_fragment_give_same_id:
  "sessionId (resetSession 1700000000000 ''0.4fzyo82mvzz''
        (resetSession 1700000000000 ''0.4fzyo82mvyr'' (init_session Map.empty)))
   = sessionId (resetSession 1700000000000 ''0.4fzyo82mvyr'' (init_session Map.empty))"
  by (simp add: resetSession_def generateSessionId_def substr_def Let_def)

section \<open>The remote exchange\<close>

text \<open>
  C5, as the code has it. \<open>sendAudioToAPI\<close> returns the response body exactly when
  \<open>response.ok\<close> holds, that is for a status from 200 to 299; for any other status it
  fails with an \<open>Error\<close> whose message carries the status text; a failure of \<open>fetch\<close>
  itself is passed on. In each case one request was sent, with the blob and the
  session id in its form.
\<close>

theorem send_returns_body_iff_ok:
  "fst (sendAudioToAPI (\<lambda>req. Inr resp) audioBlob sid net) =
     (if 200 \<le> status resp \<and> status resp \<le> 299 then Resolved (body resp)
      else Rejected (Error (''API request failed: '' @ statusText resp)))
   \<and> fst (sendAudioToAPI (\<lambda>req. Inl e) audioBlob sid net) = Rejected e
   \<and> snd (sendAudioToAPI fetch audioBlob sid net) = net @ [formData audioBlob sid]
   \<and> form_audio (formData audioBlob sid) = audioBlob
   \<and> form_session (formData audioBlob sid) = sid"
  by (simp add: sendAudioToAPI_def ok_def Let_def formData_def split: sum.splits)

theorem send_witness:
  "fst (sendAudioToAPI (\<lambda>req. Inr \<lparr>status = 200, statusText = ''OK'',
           body = \<lparr>bytes = [73, 68, 51], mime = ''audio/mpeg''\<rparr>\<rparr>) empty_Blob ''session_1_a'' []) =
     Resolved \<lparr>bytes = [73, 68, 51], mime = ''audio/mpeg''\<rparr>
   \<and> fst (sendAudioToAPI (\<lambda>req. Inr \<lparr>status = 500, statusText = ''Internal Server Error'',
           body = empty_Blob\<rparr>) empty_Blob ''session_1_a'' []) =
     Rejected (Error ''API request failed: Internal Server Error'')"
  using send_returns_body_iff_ok[of "\<lparr>status = 200, statusText = ''OK'',
           body = \<lparr>bytes = [73, 68, 51], mime = ''audio/mpeg''\<rparr>\<rparr>" empty_Blob "''session_1_a''" "[]"]
    send_returns_body_iff_ok[of "\<lparr>status = 500, statusText = ''Internal Server Error'',
           body = empty_Blob\<rparr>" empty_Blob "''session_1_a''" "[]"]
  by simp

text \<open>
  C5, as stated, fails: a response with status 206 is not a 200, and its body is
  returned as the audio blob.
\<close>

theorem status_206_is_returned_as_audio:
  "fst (sendAudioToAPI (\<lambda>req. Inr \<lparr>status = 206, statusText = ''Partial Content'',
           body = \<lparr>bytes = [73, 68, 51], mime = ''audio/mpeg''\<rparr>\<rparr>) empty_Blob ''session_1_a'' []) =
     Resolved \<lparr>bytes = [73, 68, 51], mime = ''audio/mpeg''\<rparr>"
  by (simp add: sendAudioToAPI_def ok_def Let_def)

section \<open>Level metering\<close>

lemma unat_byte_le: "unat (b :: byte) \<le> 255"
proof -
  have "unat b < 2 ^ LENGTH(8)"
    by (rule unsigned_less)
  then show ?thesis by simp
qed

lemma sum_bytes_le: "sum_list (map unat (d :: byte list)) \<le> 255 * length d"
proof (induction d)
  case Nil
  then show ?case by simp
next
  case (Cons b d)
  then show ?case
    using unat_byte_le[of b] by simp
qed

lemma average_range:
  assumes "d \<noteq> []"
  shows "0 \<le> average d" and "average d \<le> 255"
proof -
  show "0 \<le> average d"
    by (simp add: average_def)
  have "real (sum_list (map unat d)) \<le> real (255 * length d)"
    using sum_bytes_le[of d] by (rule of_nat_mono)
  then show "average d \<le> 255"
    using assms by (simp add: average_def divide_le_eq)
qed

lemma sample_level_range:
  assumes "sample_level d = Inr l"
  shows "0 \<le> l" and "l \<le> 1"
proof -
  from assms have ne: "d \<noteq> []" and l: "l = average d / 255"
    by (auto simp add: sample_level_def split: if_splits)
  show "0 \<le> l" using average_range(1)[OF ne] by (simp add: l)
  show "l \<le> 1" using average_range(2)[OF ne] by (simp add: l)
qed

lemma analyzeAudio_sampled:
  assumes "analyserRef s = Some a" "0 < frequencyBinCount a"
  shows "audioLevel (analyzeAudio reading s) = average (getByteFrequencyData a reading) / 255"
    and "0 \<le> audioLevel (analyzeAudio reading s)"
    and "audioLevel (analyzeAudio reading s) \<le> 1"
proof -
  have lvl: "sample_level (getByteFrequencyData a reading) =
               Inr (average (getByteFrequencyData a reading) / 255)"
    using assms(2) by (rule sample_level_bins)
  show eq: "audioLevel (analyzeAudio reading s) = average (getByteFrequencyData a reading) / 255"
    by (simp add: analyzeAudio_def assms(1) lvl)
  show "0 \<le> audioLevel (analyzeAudio reading s)"
    unfolding eq by (rule sample_level_range(1)[OF lvl])
  show "audioLevel (analyzeAudio reading s) \<le> 1"
    unfolding eq by (rule sample_level_range(2)[OF lvl])
qed

lemma analyzePlayback_sampled:
  assumes "vi_analyserRef s = Some a" "0 < frequencyBinCount a"
  shows "playbackLevel (analyzePlayback reading s) = average (getByteFrequencyData a reading) / 255"
    and "0 \<le> playbackLevel (analyzePlayback reading s)"
    and "playbackLevel (analyzePlayback reading s) \<le> 1"
proof -
  have lvl: "sample_level (getByteFrequencyData a reading) =
               Inr (average (getByteFrequencyData a reading) / 255)"
    using assms(2) by (rule sample_level_bins)
  show eq: "playbackLevel (analyzePlayback reading s) = average (getByteFrequencyData a reading) / 255"
    by (simp add: analyzePlayback_def assms(1) lvl)
  show "0 \<le> playbackLevel (analyzePlayback reading s)"
    unfolding eq by (rule sample_level_range(1)[OF lvl])
  show "playbackLevel (analyzePlayback reading s) \<le> 1"
    unfolding eq by (rule sample_level_range(2)[OF lvl])
qed

lemma level_inv_analyzeAudio: "level_inv s \<Longrightarrow> level_inv (analyzeAudio reading s)"
  by (auto simp add: level_inv_def analyzeAudio_def sample_level_range
      split: option.splits sum.splits)

lemma level_inv_init: "level_inv init_recorder"
  by (simp add: level_inv_def init_recorder_def)

lemma level_inv_frame: "level_inv s \<Longrightarrow> level_inv (animation_frame h reading s)"
proof -
  assume a: "level_inv s"
  then have "level_inv (s\<lparr>frames := removeAll h (frames s)\<rparr>)"
    by (simp add: level_inv_def)
  then show ?thesis
    using a by (simp add: animation_frame_def level_inv_analyzeAudio)
qed

lemma level_inv_data: "level_inv s \<Longrightarrow> level_inv (ondataavailable c s)"
  by (simp add: level_inv_def ondataavailable_def)

lemma level_inv_guard: "level_inv s \<Longrightarrow> level_inv (snd (startRecording_guard s))"
  by (simp add: level_inv_def startRecording_guard_def)

lemma level_inv_resume:
  assumes "level_inv s"
  shows "level_inv (snd (startRecording_resume gum made reading s))"
  using assms sample_level_range[OF sample_level_256[of reading]]
  by (simp add: level_inv_def startRecording_resume_def analyzeAudio_def Let_def
      sample_level_256 split: sum.splits recorder_outcome.splits)

lemma level_inv_deliver: "level_inv s \<Longrightarrow> level_inv (deliver cs s)"
  by (simp add: level_inv_def deliver_others)

lemma level_inv_stopRecording: "level_inv s \<Longrightarrow> level_inv (snd (stopRecording legacy s))"
  by (simp add: level_inv_def stopRecording_def Let_def split: option.splits)

lemma level_inv_onstop: "level_inv s \<Longrightarrow> level_inv (snd (onstop r s))"
  by (simp add: level_inv_def onstop_fields)

lemma level_inv_stop_event: "level_inv s \<Longrightarrow> level_inv (snd (stop_event s))"
  by (simp add: stop_event_def split_def Let_def level_inv_def onstop_fields split: option.splits)

lemma level_inv_track_ended: "level_inv s \<Longrightarrow> level_inv (track_ended s)"
  by (simp add: level_inv_def track_ended_def split: option.splits)

lemma level_inv_await:
  assumes "level_inv s"
  shows "level_inv (snd (await_stopRecording legacy flush s))"
proof -
  have a: "level_inv (snd (stopRecording legacy s))"
    using assms by (rule level_inv_stopRecording)
  have b: "level_inv (snd (stop_event (deliver flush (snd (stopRecording legacy s)))))"
    by (rule level_inv_stop_event) (rule level_inv_deliver, rule a)
  show ?thesis
    using a b
    by (simp add: await_stopRecording_def split_def Let_def split: settled.splits option.splits)
qed

lemma analyzeAudio_detached: "analyserRef s = None \<Longrightarrow> analyzeAudio reading s = s"
  by (simp add: analyzeAudio_def)

lemma analyzePlayback_detached: "vi_analyserRef s = None \<Longrightarrow> analyzePlayback reading s = s"
  by (simp add: analyzePlayback_def)

lemma currentLevel_range:
  assumes "ui_inv s"
  shows "0 \<le> currentLevel s" and "currentLevel s \<le> 1"
  using assms by (simp_all add: ui_inv_def level_inv_def playback_inv_def currentLevel_def)

lemma average_two: "average [255, 0 :: byte] / 255 = 1 / 2"
  by (simp add: average_def)

section \<open>Playback and the component\<close>

lemma analyzePlayback_others:
  "isPlaying (analyzePlayback reading s) = isPlaying s"
  "toasts (analyzePlayback reading s) = toasts s"
  "vi_effects (analyzePlayback reading s) = vi_effects s"
  "audioRef (analyzePlayback reading s) = audioRef s"
  "vi_audioContextRef (analyzePlayback reading s) = vi_audioContextRef s"
  "vi_analyserRef (analyzePlayback reading s) = vi_analyserRef s"
  "sourceRef (analyzePlayback reading s) = sourceRef s"
  "useAudioRecorder (analyzePlayback reading s) = useAudioRecorder s"
  "useSession (analyzePlayback reading s) = useSession s"
  "network (analyzePlayback reading s) = network s"
  "isProcessing (analyzePlayback reading s) = isProcessing s"
  by (simp_all add: analyzePlayback_def split: option.splits sum.splits)

lemma graph_built_analyzePlayback: "graph_built (analyzePlayback reading s) = graph_built s"
  by (simp add: graph_built_def analyzePlayback_others)

lemma ensure_audio_fields:
  "audioRef (ensure_audio s) =
     Some (case audioRef s of
             None \<Rightarrow> \<lparr>audio_src = None, audio_onplay = False, audio_onended = None\<rparr>
           | Some a \<Rightarrow> a)"
  "vi_audioContextRef (ensure_audio s) = vi_audioContextRef s"
  "vi_analyserRef (ensure_audio s) = vi_analyserRef s"
  "sourceRef (ensure_audio s) = sourceRef s"
  "filter builds_graph (vi_effects (ensure_audio s)) =
     filter builds_graph (vi_effects s) @ (if audioRef s = None then [NewAudio] else [])"
  by (simp_all add: ensure_audio_def split: option.splits)

lemma ensure_context_fields:
  "audioRef (ensure_context s) = audioRef s"
  "vi_audioContextRef (ensure_context s) =
     Some (case vi_audioContextRef s of None \<Rightarrow> \<lparr>ctx_closed = False\<rparr> | Some c \<Rightarrow> c)"
  "vi_analyserRef (ensure_context s) = vi_analyserRef s"
  "sourceRef (ensure_context s) = sourceRef s"
  "filter builds_graph (vi_effects (ensure_context s)) =
     filter builds_graph (vi_effects s) @
       (if vi_audioContextRef s = None then [NewAudioContext] else [])"
  by (simp_all add: ensure_context_def split: option.splits)

lemma ensure_analyser_fields:
  "audioRef (ensure_analyser s) = audioRef s"
  "vi_audioContextRef (ensure_analyser s) = vi_audioContextRef s"
  "vi_analyserRef (ensure_analyser s) =
     Some (case vi_analyserRef s of None \<Rightarrow> \<lparr>fftSize = 256\<rparr> | Some a \<Rightarrow> a)"
  "sourceRef (ensure_analyser s) = sourceRef s"
  "filter builds_graph (vi_effects (ensure_analyser s)) =
     filter builds_graph (vi_effects s) @
       (if vi_analyserRef s = None then [CreateAnalyser] else [])"
  by (simp_all add: ensure_analyser_def split: option.splits)

lemma ensure_source_fields:
  "audioRef (ensure_source s) = audioRef s"
  "vi_audioContextRef (ensure_source s) = vi_audioContextRef s"
  "vi_analyserRef (ensure_source s) = vi_analyserRef s"
  "sourceRef (ensure_source s) =
     Some (case sourceRef s of None \<Rightarrow> MediaElementAudioSourceNode | Some n \<Rightarrow> n)"
  "filter builds_graph (vi_effects (ensure_source s)) =
     filter builds_graph (vi_effects s) @
       (if sourceRef s = None
        then [CreateMediaElementSource, ConnectSourceAnalyser, ConnectAnalyserDestination]
        else [])"
  by (simp_all add: ensure_source_def split: option.splits)

lemma ensure_others:
  "useAudioRecorder (ensure_audio s) = useAudioRecorder s"
  "useSession (ensure_audio s) = useSession s"
  "network (ensure_audio s) = network s"
  "isProcessing (ensure_audio s) = isProcessing s"
  "isPlaying (ensure_audio s) = isPlaying s"
  "playbackLevel (ensure_audio s) = playbackLevel s"
  "toasts (ensure_audio s) = toasts s"
  "useAudioRecorder (ensure_context s) = useAudioRecorder s"
  "useSession (ensure_context s) = useSession s"
  "network (ensure_context s) = network s"
  "isProcessing (ensure_context s) = isProcessing s"
  "isPlaying (ensure_context s) = isPlaying s"
  "playbackLevel (ensure_context s) = playbackLevel s"
  "toasts (ensure_context s) = toasts s"
  "useAudioRecorder (ensure_analyser s) = useAudioRecorder s"
  "useSession (ensure_analyser s) = useSession s"
  "network (ensure_analyser s) = network s"
  "isProcessing (ensure_analyser s) = isProcessing s"
  "isPlaying (ensure_analyser s) = isPlaying s"
  "playbackLevel (ensure_analyser s) = playbackLevel s"
  "toasts (ensure_analyser s) = toasts s"
  "useAudioRecorder (ensure_source s) = useAudioRecorder s"
  "useSession (ensure_source s) = useSession s"
  "network (ensure_source s) = network s"
  "isProcessing (ensure_source s) = isProcessing s"
  "isPlaying (ensure_source s) = isPlaying s"
  "playbackLevel (ensure_source s) = playbackLevel s"
  "toasts (ensure_source s) = toasts s"
  by (simp_all add: ensure_audio_def ensure_context_def ensure_analyser_def ensure_source_def
      split: option.splits)

lemma prepare_playback_refs:
  "vi_analyserRef (prepare_playback b s) =
     Some (case vi_analyserRef s of None \<Rightarrow> \<lparr>fftSize = 256\<rparr> | Some a \<Rightarrow> a)"
  "vi_audioContextRef (prepare_playback b s) =
     Some (case vi_audioContextRef s of None \<Rightarrow> \<lparr>ctx_closed = False\<rparr> | Some c \<Rightarrow> c)"
  "sourceRef (prepare_playback b s) =
     Some (case sourceRef s of None \<Rightarrow> MediaElementAudioSourceNode | Some n \<Rightarrow> n)"
  "audioRef (prepare_playback b s) =
     Some ((case audioRef s of
              None \<Rightarrow> \<lparr>audio_src = None, audio_onplay = False, audio_onended = None\<rparr>
            | Some a \<Rightarrow> a)
           \<lparr>audio_src := Some (nextURL s), audio_onplay := True,
            audio_onended := Some (nextURL s)\<rparr>)"
  by (simp_all add: prepare_playback_def Let_def ensure_audio_fields ensure_context_fields
      ensure_analyser_fields ensure_source_fields)

lemma prepare_playback_others:
  "useAudioRecorder (prepare_playback b s) = useAudioRecorder s"
  "useSession (prepare_playback b s) = useSession s"
  "network (prepare_playback b s) = network s"
  "isProcessing (prepare_playback b s) = isProcessing s"
  "isPlaying (prepare_playback b s) = isPlaying s"
  "playbackLevel (prepare_playback b s) = playbackLevel s"
  "toasts (prepare_playback b s) = toasts s"
  by (simp_all add: prepare_playback_def Let_def ensure_others)

lemma prepare_playback_builds:
  "filter builds_graph (vi_effects (prepare_playback b s)) =
     filter builds_graph (vi_effects s)
       @ (if audioRef s = None then [NewAudio] else [])
       @ (if vi_audioContextRef s = None then [NewAudioContext] else [])
       @ (if vi_analyserRef s = None then [CreateAnalyser] else [])
       @ (if sourceRef s = None
          then [CreateMediaElementSource, ConnectSourceAnalyser, ConnectAnalyserDestination]
          else [])"
  by (simp add: prepare_playback_def Let_def ensure_audio_fields ensure_context_fields
      ensure_analyser_fields ensure_source_fields)

lemma graph_built_prepare_playback: "graph_built (prepare_playback b s)"
  by (simp add: graph_built_def prepare_playback_refs)

lemma dispatch_play_prepare_playback:
  "audio_dispatch PlayEvent reading (prepare_playback b s) = onplay reading (prepare_playback b s)"
  by (simp add: audio_dispatch_def prepare_playback_refs)

lemma catch_playback_fields:
  "vi_analyserRef (catch_playback s) = vi_analyserRef s"
  "vi_audioContextRef (catch_playback s) = vi_audioContextRef s"
  "sourceRef (catch_playback s) = sourceRef s"
  "audioRef (catch_playback s) = audioRef s"
  "vi_effects (catch_playback s) = vi_effects s"
  "useAudioRecorder (catch_playback s) = useAudioRecorder s"
  "useSession (catch_playback s) = useSession s"
  "network (catch_playback s) = network s"
  "isProcessing (catch_playback s) = isProcessing s"
  "isPlaying (catch_playback s) = False"
  "playbackLevel (catch_playback s) = 0"
  "toasts (catch_playback s) = toasts s @ [playback_error_toast]"
  "vi_frames (catch_playback s) = vi_frames s"
  "objectURLs (catch_playback s) = objectURLs s"
  by (simp_all add: catch_playback_def)

lemma play_unfold:
  "playAudioResponse Began reading audioBlob s =
     (Resolved (), onplay reading (prepare_playback audioBlob s))"
  "playAudioResponse (Refused e) reading audioBlob s =
     (Resolved (), catch_playback (prepare_playback audioBlob s))"
  "playAudioResponse (Failed e) reading audioBlob s =
     (Resolved (), catch_playback (onplay reading (prepare_playback audioBlob s)))"
  by (simp_all add: playAudioResponse_def Let_def dispatch_play_prepare_playback)

lemma onplay_fields:
  "vi_analyserRef (onplay reading s) = vi_analyserRef s"
  "vi_audioContextRef (onplay reading s) = vi_audioContextRef s"
  "sourceRef (onplay reading s) = sourceRef s"
  "audioRef (onplay reading s) = audioRef s"
  "vi_effects (onplay reading s) = vi_effects s"
  "useAudioRecorder (onplay reading s) = useAudioRecorder s"
  "useSession (onplay reading s) = useSession s"
  "network (onplay reading s) = network s"
  "isProcessing (onplay reading s) = isProcessing s"
  "isPlaying (onplay reading s) = True"
  "toasts (onplay reading s) = toasts s"
  by (simp_all add: onplay_def analyzePlayback_others)

lemma play_refs:
  "vi_analyserRef (snd (playAudioResponse p r b s)) = vi_analyserRef (prepare_playback b s)"
  "vi_audioContextRef (snd (playAudioResponse p r b s)) = vi_audioContextRef (prepare_playback b s)"
  "sourceRef (snd (playAudioResponse p r b s)) = sourceRef (prepare_playback b s)"
  "audioRef (snd (playAudioResponse p r b s)) = audioRef (prepare_playback b s)"
  "vi_effects (snd (playAudioResponse p r b s)) = vi_effects (prepare_playback b s)"
  "useAudioRecorder (snd (playAudioResponse p r b s)) = useAudioRecorder s"
  "useSession (snd (playAudioResponse p r b s)) = useSession s"
  "network (snd (playAudioResponse p r b s)) = network s"
  "isProcessing (snd (playAudioResponse p r b s)) = isProcessing s"
  "isPlaying (snd (playAudioResponse p r b s)) = (p = Began)"
  "toasts (snd (playAudioResponse p r b s)) =
     toasts s @ (if p = Began then [] else [playback_error_toast])"
  "fst (playAudioResponse p r b s) = Resolved ()"
  by (cases p; simp add: play_unfold onplay_fields catch_playback_fields
      prepare_playback_others)+

lemma play_failed_level:
  "p \<noteq> Began \<Longrightarrow> playbackLevel (snd (playAudioResponse p r b s)) = 0"
  by (cases p) (simp_all add: play_unfold catch_playback_fields)

lemma graph_built_play: "graph_built (snd (playAudioResponse p r b s))"
  by (simp add: graph_built_def play_refs prepare_playback_refs)

lemma play_builds_nothing_more:
  assumes "graph_built s"
  shows "filter builds_graph (vi_effects (snd (playAudioResponse p r b s))) =
           filter builds_graph (vi_effects s)"
    and "vi_audioContextRef (snd (playAudioResponse p r b s)) = vi_audioContextRef s"
    and "vi_analyserRef (snd (playAudioResponse p r b s)) = vi_analyserRef s"
    and "sourceRef (snd (playAudioResponse p r b s)) = sourceRef s"
    and "map_option (\<lambda>a. ()) (audioRef (snd (playAudioResponse p r b s))) =
           map_option (\<lambda>a. ()) (audioRef s)"
  using assms
  by (auto simp add: graph_built_def play_refs prepare_playback_refs prepare_playback_builds)

lemma playback_inv_init: "playback_inv (init_voice store)"
  by (simp add: playback_inv_def init_voice_def graph_built_def)

lemma playback_inv_analyzePlayback:
  "playback_inv s \<Longrightarrow> playback_inv (analyzePlayback reading s)"
  unfolding playback_inv_def graph_built_analyzePlayback analyzePlayback_others
  by (auto simp add: analyzePlayback_def sample_level_range split: option.splits sum.splits)

lemma playback_inv_prepare_playback:
  assumes "playback_inv s"
  shows "playback_inv (prepare_playback b s)"
proof -
  from assms have lo: "0 \<le> playbackLevel s" and hi: "playbackLevel s \<le> 1"
    by (simp_all add: playback_inv_def)
  from assms have fft: "case vi_analyserRef s of None \<Rightarrow> True | Some a \<Rightarrow> fftSize a = 256"
    by (simp add: playback_inv_def)
  have fft': "case vi_analyserRef (prepare_playback b s) of None \<Rightarrow> True
              | Some a \<Rightarrow> fftSize a = 256"
    using fft by (simp add: prepare_playback_refs split: option.splits)
  have built: "filter builds_graph (vi_effects (prepare_playback b s)) = graph_effects"
  proof (cases "graph_built s")
    case True
    with assms have "filter builds_graph (vi_effects s) = graph_effects"
      by (simp add: playback_inv_def)
    with True show ?thesis
      by (simp add: prepare_playback_builds graph_built_def)
  next
    case False
    with assms have "audioRef s = None" "vi_audioContextRef s = None" "vi_analyserRef s = None"
      "sourceRef s = None" "filter builds_graph (vi_effects s) = []"
      by (simp_all add: playback_inv_def)
    then show ?thesis
      by (simp add: prepare_playback_builds graph_effects_def)
  qed
  show ?thesis
    unfolding playback_inv_def
    using lo hi fft' built
    by (simp add: graph_built_prepare_playback prepare_playback_others)
      (simp add: prepare_playback_refs)
qed

lemma playback_inv_irrelevant:
  "playback_inv (s\<lparr>isPlaying := p\<rparr>) = playback_inv s"
  "playback_inv (s\<lparr>isProcessing := q\<rparr>) = playback_inv s"
  "playback_inv (s\<lparr>toasts := ts\<rparr>) = playback_inv s"
  "playback_inv (s\<lparr>network := n\<rparr>) = playback_inv s"
  "playback_inv (s\<lparr>vi_console := c\<rparr>) = playback_inv s"
  "playback_inv (s\<lparr>useAudioRecorder := r\<rparr>) = playback_inv s"
  "playback_inv (s\<lparr>useSession := u\<rparr>) = playback_inv s"
  "playback_inv (s\<lparr>vi_frames := f\<rparr>) = playback_inv s"
  "playback_inv (s\<lparr>objectURLs := us\<rparr>) = playback_inv s"
  by (simp_all add: playback_inv_def graph_built_def)

lemma playback_inv_level0:
  assumes "playback_inv s"
  shows "playback_inv (s\<lparr>playbackLevel := 0\<rparr>)"
proof -
  have g: "graph_built (s\<lparr>playbackLevel := 0\<rparr>) = graph_built s"
    by (simp add: graph_built_def)
  from assms have "case vi_analyserRef s of None \<Rightarrow> True | Some a \<Rightarrow> fftSize a = 256"
    and "if graph_built s then filter builds_graph (vi_effects s) = graph_effects
       else audioRef s = None \<and> vi_audioContextRef s = None \<and> vi_analyserRef s = None \<and>
            sourceRef s = None \<and> filter builds_graph (vi_effects s) = []"
    by (simp_all add: playback_inv_def)
  then show ?thesis
    unfolding playback_inv_def g by simp
qed

lemma playback_inv_reset_level:
  assumes "playback_inv s"
  shows "playback_inv (s\<lparr>vi_console := c, isPlaying := p, playbackLevel := 0, toasts := ts\<rparr>)"
proof -
  from assms have "playback_inv (s\<lparr>vi_console := c, isPlaying := p\<rparr>)"
    by (simp only: playback_inv_irrelevant)
  then have "playback_inv (s\<lparr>vi_console := c, isPlaying := p, playbackLevel := 0\<rparr>)"
    by (rule playback_inv_level0)
  then show ?thesis
    by (simp only: playback_inv_irrelevant)
qed

lemma playback_inv_onplay: "playback_inv s \<Longrightarrow> playback_inv (onplay reading s)"
  by (simp add: onplay_def playback_inv_analyzePlayback playback_inv_irrelevant)

lemma playback_inv_catch_playback: "playback_inv s \<Longrightarrow> playback_inv (catch_playback s)"
  by (simp add: catch_playback_def playback_inv_reset_level)

lemma playback_inv_play:
  assumes "playback_inv s"
  shows "playback_inv (snd (playAudioResponse p r b s))"
  using playback_inv_prepare_playback[OF assms, of b]
  by (cases p)
    (simp_all add: play_unfold playback_inv_onplay playback_inv_catch_playback)

lemma playback_inv_effects_append:
  assumes "playback_inv s" "filter builds_graph es = []"
  shows "playback_inv (s\<lparr>vi_effects := vi_effects s @ es\<rparr>)"
proof -
  have g: "graph_built (s\<lparr>vi_effects := vi_effects s @ es\<rparr>) = graph_built s"
    by (simp add: graph_built_def)
  from assms(1) have "vi_analyserRef s = None \<longrightarrow> playbackLevel s = 0"
    and "0 \<le> playbackLevel s" and "playbackLevel s \<le> 1"
    and "case vi_analyserRef s of None \<Rightarrow> True | Some a \<Rightarrow> fftSize a = 256"
    and "if graph_built s then filter builds_graph (vi_effects s) = graph_effects
       else audioRef s = None \<and> vi_audioContextRef s = None \<and> vi_analyserRef s = None \<and>
            sourceRef s = None \<and> filter builds_graph (vi_effects s) = []"
    by (simp_all add: playback_inv_def)
  then show ?thesis
    unfolding playback_inv_def g using assms(2) by simp
qed

lemma playback_inv_onended:
  assumes "playback_inv s"
  shows "playback_inv (onended u s)"
proof -
  define s1 where "s1 = s\<lparr>isPlaying := False, playbackLevel := 0\<rparr>"
  have p1: "playback_inv s1"
    unfolding s1_def using assms
    by (simp only: playback_inv_irrelevant playback_inv_level0)
  define s2 where "s2 = (case vi_animationFrameRef s1 of
                  None \<Rightarrow> s1
                | Some h \<Rightarrow>
                    if h = 0 then s1
                    else s1\<lparr>vi_frames := removeAll h (vi_frames s1),
                            vi_effects := vi_effects s1 @ [CancelAnimationFrame h]\<rparr>)"
  have p2: "playback_inv s2"
  proof (cases "vi_animationFrameRef s1")
    case None
    then show ?thesis using p1 by (simp add: s2_def)
  next
    case (Some h)
    have "playback_inv (s1\<lparr>vi_frames := removeAll h (vi_frames s1)\<rparr>)"
      using p1 by (simp only: playback_inv_irrelevant)
    then have "playback_inv (s1\<lparr>vi_frames := removeAll h (vi_frames s1),
                            vi_effects := vi_effects s1 @ [CancelAnimationFrame h]\<rparr>)"
      using playback_inv_effects_append[of "s1\<lparr>vi_frames := removeAll h (vi_frames s1)\<rparr>"
          "[CancelAnimationFrame h]"]
      by simp
    with Some p1 show ?thesis by (simp add: s2_def)
  qed
  have "playback_inv (s2\<lparr>objectURLs := removeAll u (objectURLs s2)\<rparr>)"
    using p2 by (simp only: playback_inv_irrelevant)
  then have "playback_inv (s2\<lparr>objectURLs := removeAll u (objectURLs s2),
            vi_effects := vi_effects s2 @ [RevokeObjectURL u]\<rparr>)"
    using playback_inv_effects_append[of "s2\<lparr>objectURLs := removeAll u (objectURLs s2)\<rparr>"
        "[RevokeObjectURL u]"]
    by simp
  then show ?thesis
    by (simp add: onended_def Let_def flip: s1_def s2_def)
qed

lemma playback_inv_dispatch:
  "playback_inv s \<Longrightarrow> playback_inv (audio_dispatch ev reading s)"
  by (cases ev)
    (simp_all add: audio_dispatch_def playback_inv_onplay playback_inv_onended
      split: option.splits)

lemma playback_inv_frame: "playback_inv s \<Longrightarrow> playback_inv (playback_frame h reading s)"
  by (simp add: playback_frame_def playback_inv_analyzePlayback playback_inv_irrelevant)

lemma playback_inv_catch: "playback_inv s \<Longrightarrow> playback_inv (catch_processing e s)"
  by (simp add: catch_processing_def playback_inv_irrelevant)

lemma playback_inv_finally: "playback_inv (finally_processing s) = playback_inv s"
  by (simp add: finally_processing_def playback_inv_irrelevant)

lemma playback_inv_toggle_stop:
  assumes "playback_inv s"
  shows "playback_inv (toggle_stop env s)"
  using assms
  by (simp add: toggle_stop_def Let_def split_def playback_inv_irrelevant
      playback_inv_finally playback_inv_catch playback_inv_play
      split: settled.splits)

lemma playback_inv_toggle_started:
  "playback_inv s \<Longrightarrow> playback_inv (toggle_started started s)"
  by (simp add: toggle_started_def playback_inv_irrelevant split: settled.splits)

lemma playback_inv_toggle_start: "playback_inv s \<Longrightarrow> playback_inv (toggle_start s)"
  by (simp add: toggle_start_def split_def Let_def playback_inv_toggle_started
      playback_inv_irrelevant)

lemma playback_inv_toggle_resume:
  "playback_inv s \<Longrightarrow> playback_inv (toggle_resume gum made reading s)"
  by (simp add: toggle_resume_def split_def Let_def playback_inv_toggle_started
      playback_inv_irrelevant)

lemma catch_finally_others:
  "useAudioRecorder (catch_processing e s) = useAudioRecorder s"
  "useAudioRecorder (finally_processing s) = useAudioRecorder s"
  "network (catch_processing e s) = network s"
  "network (finally_processing s) = network s"
  "isPlaying (catch_processing e s) = isPlaying s"
  "isPlaying (finally_processing s) = isPlaying s"
  "toasts (catch_processing e s) = toasts s @ [error_toast e]"
  "toasts (finally_processing s) = toasts s"
  "isProcessing (finally_processing s) = False"
  "useSession (catch_processing e s) = useSession s"
  "useSession (finally_processing s) = useSession s"
  by (simp_all add: catch_processing_def finally_processing_def)

lemma toggle_started_recorder:
  "useAudioRecorder (toggle_started started s) = useAudioRecorder s"
  by (simp add: toggle_started_def split: settled.splits)

lemma toggle_recorder:
  "useAudioRecorder (toggle_stop env s) =
     snd (await_stopRecording (env_legacy env) (env_flush env) (useAudioRecorder s))"
  "useAudioRecorder (toggle_start s) = snd (startRecording_guard (useAudioRecorder s))"
  "useAudioRecorder (toggle_resume gum made reading s) =
     snd (startRecording_resume gum made reading (useAudioRecorder s))"
  by (simp_all add: toggle_stop_def toggle_start_def toggle_resume_def Let_def split_def
      catch_finally_others play_refs toggle_started_recorder split: settled.splits)

lemma ui_inv_init: "ui_inv (init_voice store)"
  unfolding ui_inv_def
  by (simp add: playback_inv_init) (simp add: init_voice_def level_inv_init)

lemma ui_inv_step:
  assumes "ui_inv s"
  shows "ui_inv (ui_step s ev)"
proof -
  from assms have l: "level_inv (useAudioRecorder s)" and p: "playback_inv s"
    by (simp_all add: ui_inv_def)
  show ?thesis
  proof (cases ev)
    case (Mount now r36)
    with l p show ?thesis by (simp add: ui_inv_def playback_inv_irrelevant)
  next
    case (ToggleClick env)
    have "level_inv (useAudioRecorder (handleToggleRecording env s))"
      using l by (simp add: handleToggleRecording_def toggle_recorder level_inv_guard
          level_inv_await)
    moreover have "playback_inv (handleToggleRecording env s)"
      using p by (simp add: handleToggleRecording_def playback_inv_toggle_stop
          playback_inv_toggle_start)
    ultimately show ?thesis
      using assms ToggleClick by (simp add: ui_inv_def)
  next
    case (MicrophoneSettled gum made reading)
    have "level_inv (useAudioRecorder (toggle_resume gum made reading s))"
      using l by (simp add: toggle_recorder level_inv_resume)
    moreover have "playback_inv (toggle_resume gum made reading s)"
      using p by (rule playback_inv_toggle_resume)
    ultimately show ?thesis
      using assms MicrophoneSettled by (simp add: ui_inv_def)
  next
    case (ResetClick now r36)
    with l p show ?thesis
      by (simp add: ui_inv_def handleResetSession_def Let_def playback_inv_irrelevant)
  next
    case (Fragment chunk)
    with l p show ?thesis
      by (simp add: ui_inv_def playback_inv_irrelevant level_inv_data)
  next
    case (RecorderFrame h reading)
    with l p show ?thesis
      by (simp add: ui_inv_def playback_inv_irrelevant level_inv_frame)
  next
    case RecorderTrackEnded
    with l p show ?thesis
      by (simp add: ui_inv_def playback_inv_irrelevant level_inv_track_ended)
  next
    case RecorderStopEvent
    with l p show ?thesis
      by (simp add: ui_inv_def playback_inv_irrelevant level_inv_stop_event)
  next
    case (PlaybackFrame h reading)
    have "useAudioRecorder (playback_frame h reading s) = useAudioRecorder s"
      by (simp add: playback_frame_def analyzePlayback_others)
    with PlaybackFrame l p show ?thesis
      by (simp add: ui_inv_def playback_inv_frame)
  next
    case (AudioEvent a reading)
    have "useAudioRecorder (audio_dispatch a reading s) = useAudioRecorder s"
      by (cases a)
        (simp_all add: audio_dispatch_def onplay_def onended_def Let_def analyzePlayback_others
          split: option.splits)
    with AudioEvent l p show ?thesis
      by (simp add: ui_inv_def playback_inv_dispatch)
  qed
qed

lemma ui_inv_foldl: "ui_inv s \<Longrightarrow> ui_inv (foldl ui_step s evs)"
  by (induction evs arbitrary: s) (simp_all add: ui_inv_step)

lemma ui_inv_run: "ui_inv (ui_run store evs)"
  by (simp add: ui_run_def ui_inv_foldl ui_inv_init)

lemma play_all_built:
  "graph_built s \<Longrightarrow>
   graph_built (play_all calls s)
   \<and> filter builds_graph (vi_effects (play_all calls s)) = filter builds_graph (vi_effects s)
   \<and> vi_audioContextRef (play_all calls s) = vi_audioContextRef s
   \<and> vi_analyserRef (play_all calls s) = vi_analyserRef s
   \<and> sourceRef (play_all calls s) = sourceRef s"
proof (induction calls arbitrary: s)
  case Nil
  then show ?case by simp
next
  case (Cons c calls)
  obtain p r b where c: "c = (p, r, b)" by (cases c)
  have built: "graph_built (snd (playAudioResponse p r b s))"
    by (rule graph_built_play)
  from Cons.IH[OF built] play_builds_nothing_more(1-4)[OF Cons.prems, of p r b]
  show ?case by (simp add: c)
qed

lemma first_play_builds:
  "filter builds_graph (vi_effects (snd (playAudioResponse p r b (init_voice store)))) =
     graph_effects"
  by (simp add: play_refs prepare_playback_builds graph_effects_def)
    (simp add: init_voice_def)

lemma full_scale_reading:
  "sample_level (getByteFrequencyData \<lparr>fftSize = 256\<rparr> (replicate 128 255)) = Inr 1"
proof -
  have bins: "getByteFrequencyData \<lparr>fftSize = 256\<rparr> (replicate 128 255) = replicate 128 255"
    by (simp add: getByteFrequencyData_def frequencyBinCount_def)
  have "average (replicate 128 (255 :: byte)) = 255"
    by (simp add: average_def sum_list_replicate)
  then show ?thesis
    using sample_level_256[of "replicate 128 255"] by (simp add: bins)
qed

lemma send_results:
  "snd (sendAudioToAPI fetch b sid net) = net @ [formData b sid]"
  "fst (sendAudioToAPI fetch b sid net) =
     (case fetch (formData b sid) of
        Inl e \<Rightarrow> Rejected e
      | Inr resp \<Rightarrow>
          if ok resp then Resolved (body resp)
          else Rejected (Error (''API request failed: '' @ statusText resp)))"
  by (simp_all add: sendAudioToAPI_def Let_def split: sum.splits)

text \<open>
  C4. With an analyser attached that has at least one bin, a sampling sets the level to
  the arithmetic mean of the 8-bit bins divided by 255 (in exact arithmetic), which lies
  between 0 and 1; this holds for the recorder's \<open>analyzeAudio\<close> and for the component's
  \<open>analyzePlayback\<close>. Without an analyser a sampling changes nothing, and in every history
  of the component a level whose analyser is not attached is 0 and the level handed to
  the visualizer lies between 0 and 1.
\<close>

theorem level_is_mean_over_255:
  "(analyserRef s = Some a \<and> 0 < frequencyBinCount a \<longrightarrow>
      audioLevel (analyzeAudio reading s) = average (getByteFrequencyData a reading) / 255
      \<and> 0 \<le> audioLevel (analyzeAudio reading s) \<and> audioLevel (analyzeAudio reading s) \<le> 1)
   \<and> (vi_analyserRef v = Some a \<and> 0 < frequencyBinCount a \<longrightarrow>
      playbackLevel (analyzePlayback reading v) = average (getByteFrequencyData a reading) / 255
      \<and> 0 \<le> playbackLevel (analyzePlayback reading v)
      \<and> playbackLevel (analyzePlayback reading v) \<le> 1)
   \<and> (analyserRef s = None \<longrightarrow> analyzeAudio reading s = s)
   \<and> (vi_analyserRef v = None \<longrightarrow> analyzePlayback reading v = v)
   \<and> (analyserRef (useAudioRecorder (ui_run store evs)) = None \<longrightarrow>
        audioLevel (useAudioRecorder (ui_run store evs)) = 0)
   \<and> (vi_analyserRef (ui_run store evs) = None \<longrightarrow> playbackLevel (ui_run store evs) = 0)
   \<and> 0 \<le> currentLevel (ui_run store evs) \<and> currentLevel (ui_run store evs) \<le> 1"
proof -
  note inv = ui_inv_run[of store evs]
  have rec: "analyserRef s = Some a \<and> 0 < frequencyBinCount a \<longrightarrow>
      audioLevel (analyzeAudio reading s) = average (getByteFrequencyData a reading) / 255
      \<and> 0 \<le> audioLevel (analyzeAudio reading s) \<and> audioLevel (analyzeAudio reading s) \<le> 1"
    using analyzeAudio_sampled[of s a reading] by (intro impI conjI) (elim conjE, assumption)+
  have play: "vi_analyserRef v = Some a \<and> 0 < frequencyBinCount a \<longrightarrow>
      playbackLevel (analyzePlayback reading v) = average (getByteFrequencyData a reading) / 255
      \<and> 0 \<le> playbackLevel (analyzePlayback reading v)
      \<and> playbackLevel (analyzePlayback reading v) \<le> 1"
    using analyzePlayback_sampled[of v a reading] by (intro impI conjI) (elim conjE, assumption)+
  have det: "analyserRef s = None \<longrightarrow> analyzeAudio reading s = s"
    "vi_analyserRef v = None \<longrightarrow> analyzePlayback reading v = v"
    by (simp_all add: analyzeAudio_detached analyzePlayback_detached)
  have r0: "analyserRef (useAudioRecorder (ui_run store evs)) = None \<longrightarrow>
        audioLevel (useAudioRecorder (ui_run store evs)) = 0"
    using inv by (simp add: ui_inv_def level_inv_def)
  have p0: "vi_analyserRef (ui_run store evs) = None \<longrightarrow> playbackLevel (ui_run store evs) = 0"
    using inv by (simp add: ui_inv_def playback_inv_def)
  from rec play det r0 p0 currentLevel_range[OF inv] show ?thesis
    by (intro conjI)
qed

theorem level_witness:
  "analyserRef (init_recorder\<lparr>analyserRef := Some \<lparr>fftSize = 4\<rparr>\<rparr>) = Some \<lparr>fftSize = 4\<rparr>
   \<and> 0 < frequencyBinCount \<lparr>fftSize = 4\<rparr>
   \<and> audioLevel (analyzeAudio [255, 0] (init_recorder\<lparr>analyserRef := Some \<lparr>fftSize = 4\<rparr>\<rparr>)) = 1 / 2
   \<and> vi_analyserRef (init_voice Map.empty) = None
   \<and> playbackLevel (analyzePlayback [255, 0] (init_voice Map.empty)) = 0
   \<and> analyserRef init_recorder = None
   \<and> audioLevel (analyzeAudio [255, 0] init_recorder) = 0"
proof -
  have bins: "getByteFrequencyData \<lparr>fftSize = 4\<rparr> [255, 0] = [255, 0]"
    by (simp add: getByteFrequencyData_def frequencyBinCount_def)
  have a: "analyserRef (init_recorder\<lparr>analyserRef := Some \<lparr>fftSize = 4\<rparr>\<rparr>) = Some \<lparr>fftSize = 4\<rparr>"
    by simp
  have n: "0 < frequencyBinCount \<lparr>fftSize = 4\<rparr>"
    by (simp add: frequencyBinCount_def)
  have v: "vi_analyserRef (init_voice Map.empty) = None"
    by (simp add: init_voice_def)
  have r: "analyserRef init_recorder = None"
    by (simp add: init_recorder_def)
  note t1 = level_is_mean_over_255[of "init_recorder\<lparr>analyserRef := Some \<lparr>fftSize = 4\<rparr>\<rparr>"
      "\<lparr>fftSize = 4\<rparr>" "[255, 0]" "init_voice Map.empty" Map.empty "[]"]
  note t2 = level_is_mean_over_255[of init_recorder
      "\<lparr>fftSize = 4\<rparr>" "[255, 0]" "init_voice Map.empty" Map.empty "[]"]
  have l1: "audioLevel (analyzeAudio [255, 0] (init_recorder\<lparr>analyserRef := Some \<lparr>fftSize = 4\<rparr>\<rparr>)) = 1 / 2"
    using t1 a n by (simp add: bins average_two)
  have l2: "analyzePlayback [255, 0] (init_voice Map.empty) = init_voice Map.empty"
    using t1 v by simp
  have l3: "analyzeAudio [255, 0] init_recorder = init_recorder"
    using t2 r by simp
  show ?thesis
    using a n l1 v r
    by (simp add: l2 l3) (simp add: init_voice_def init_recorder_def)
qed

text \<open>
  C6. Every call of \<open>playAudioResponse\<close> leaves the playback graph built. A call that
  finds it built constructs nothing and keeps the context, the analyser and the source
  it found. From a fresh component the first call constructs the element, the context,
  the analyser and the source and connects them, each once; after any further calls
  the log still holds exactly those constructions and the refs still hold the objects of
  the first call. In every history of the component the graph is either unbuilt with
  nothing constructed, or built with each part constructed once.
\<close>

theorem playback_graph_built_once:
  "graph_built (snd (playAudioResponse play reading audioBlob s))
   \<and> (graph_built s \<longrightarrow>
        filter builds_graph (vi_effects (snd (playAudioResponse play reading audioBlob s))) =
          filter builds_graph (vi_effects s)
        \<and> vi_audioContextRef (snd (playAudioResponse play reading audioBlob s)) =
            vi_audioContextRef s
        \<and> vi_analyserRef (snd (playAudioResponse play reading audioBlob s)) = vi_analyserRef s
        \<and> sourceRef (snd (playAudioResponse play reading audioBlob s)) = sourceRef s)
   \<and> filter builds_graph (vi_effects (play_all [c] (init_voice store))) = graph_effects
   \<and> filter builds_graph (vi_effects (play_all (c # calls) (init_voice store))) = graph_effects
   \<and> vi_audioContextRef (play_all (c # calls) (init_voice store)) =
       vi_audioContextRef (play_all [c] (init_voice store))
   \<and> vi_analyserRef (play_all (c # calls) (init_voice store)) =
       vi_analyserRef (play_all [c] (init_voice store))
   \<and> sourceRef (play_all (c # calls) (init_voice store)) =
       sourceRef (play_all [c] (init_voice store))
   \<and> filter builds_graph (vi_effects (ui_run store evs)) =
       (if graph_built (ui_run store evs) then graph_effects else [])"
proof -
  obtain p r b where c: "c = (p, r, b)" by (cases c)
  define s1 where "s1 = snd (playAudioResponse p r b (init_voice store))"
  have built: "graph_built s1"
    unfolding s1_def by (rule graph_built_play)
  have first: "filter builds_graph (vi_effects s1) = graph_effects"
    unfolding s1_def by (rule first_play_builds)
  note rest = play_all_built[OF built, of calls]
  have hist: "filter builds_graph (vi_effects (ui_run store evs)) =
       (if graph_built (ui_run store evs) then graph_effects else [])"
    using ui_inv_run[of store evs] by (simp add: ui_inv_def playback_inv_def)
  have step: "graph_built s \<longrightarrow>
        filter builds_graph (vi_effects (snd (playAudioResponse play reading audioBlob s))) =
          filter builds_graph (vi_effects s)
        \<and> vi_audioContextRef (snd (playAudioResponse play reading audioBlob s)) =
            vi_audioContextRef s
        \<and> vi_analyserRef (snd (playAudioResponse play reading audioBlob s)) = vi_analyserRef s
        \<and> sourceRef (snd (playAudioResponse play reading audioBlob s)) = sourceRef s"
    using play_builds_nothing_more(1-4)[of s play reading audioBlob] by simp
  show ?thesis
    using graph_built_play[of play reading audioBlob s] step first rest hist
    by (simp add: c flip: s1_def)
qed

theorem playback_graph_witness:
  "graph_built (snd (playAudioResponse Began [] empty_Blob (init_voice Map.empty)))
   \<and> filter builds_graph
        (vi_effects (snd (playAudioResponse (Refused (DOMException ''NotAllowedError'' []))
           [] empty_Blob (snd (playAudioResponse Began [] empty_Blob (init_voice Map.empty)))))) =
       [NewAudio, NewAudioContext, CreateAnalyser, CreateMediaElementSource,
        ConnectSourceAnalyser, ConnectAnalyserDestination]"
proof -
  note t = playback_graph_built_once[of Began "[]" empty_Blob "init_voice Map.empty"
      "(Began, [], empty_Blob)" Map.empty "[]" "[]"]
  note u = playback_graph_built_once[of "Refused (DOMException ''NotAllowedError'' [])" "[]" empty_Blob
      "snd (playAudioResponse Began [] empty_Blob (init_voice Map.empty))"
      "(Began, [], empty_Blob)" Map.empty "[]" "[]"]
  from t have b: "graph_built (snd (playAudioResponse Began [] empty_Blob (init_voice Map.empty)))"
    by (rule conjunct1)
  from t have f: "filter builds_graph
      (vi_effects (snd (playAudioResponse Began [] empty_Blob (init_voice Map.empty)))) = graph_effects"
    by simp
  from u b have "filter builds_graph
        (vi_effects (snd (playAudioResponse (Refused (DOMException ''NotAllowedError'' []))
           [] empty_Blob (snd (playAudioResponse Began [] empty_Blob (init_voice Map.empty)))))) =
       filter builds_graph
      (vi_effects (snd (playAudioResponse Began [] empty_Blob (init_voice Map.empty))))"
    by simp
  with b f show ?thesis
    by (simp add: graph_effects_def)
qed

lemma toggle_stop_unfold:
  assumes cap: "capturing (useAudioRecorder s)"
  shows "toggle_stop env s =
     (let audioBlob = new_Blob (audioChunksRef (useAudioRecorder s) @ env_flush env) ''audio/webm'';
          s2 = s\<lparr>isProcessing := True,
                 useAudioRecorder :=
                   snd (await_stopRecording (env_legacy env) (env_flush env) (useAudioRecorder s))\<rparr>
      in if sessionId (useSession s) = [] then
           finally_processing
             (s2\<lparr>toasts := toasts s2 @ [session_error_toast], isProcessing := False\<rparr>)
         else
           (case fst (sendAudioToAPI (env_fetch env) audioBlob (sessionId (useSession s)) (network s)) of
              Pending \<Rightarrow>
                s2\<lparr>network := snd (sendAudioToAPI (env_fetch env) audioBlob
                                      (sessionId (useSession s)) (network s))\<rparr>
            | Rejected e \<Rightarrow>
                finally_processing (catch_processing e
                  (s2\<lparr>network := snd (sendAudioToAPI (env_fetch env) audioBlob
                                      (sessionId (useSession s)) (network s))\<rparr>))
            | Resolved responseBlob \<Rightarrow>
                finally_processing
                  (snd (playAudioResponse (env_play env) (env_reading env) responseBlob
                     (s2\<lparr>network := snd (sendAudioToAPI (env_fetch env) audioBlob
                                      (sessionId (useSession s)) (network s))\<rparr>)))))"
proof -
  have stopped: "fst (await_stopRecording (env_legacy env) (env_flush env) (useAudioRecorder s)) =
      Resolved (new_Blob (audioChunksRef (useAudioRecorder s) @ env_flush env) ''audio/webm'')"
    by (simp add: await_stop_capturing(1)[OF cap])
  show ?thesis
    by (simp add: toggle_stop_def Let_def split_def stopped)
qed





lemma toggle_start_suspended:
  "\<not> capturing (useAudioRecorder s) \<Longrightarrow>
   toggle_start s = s\<lparr>useAudioRecorder :=
       (useAudioRecorder s)\<lparr>starting := Suc (starting (useAudioRecorder s))\<rparr>\<rparr>"
  by (simp add: toggle_start_def guard_passes toggle_started_def)

lemma toggle_resume_started:
  "toggle_resume (Inr stream) Started reading s =
     s\<lparr>useAudioRecorder :=
          snd (startRecording_resume (Inr stream) Started reading (useAudioRecorder s)),
       toasts := toasts s @ [recording_started_toast]\<rparr>"
  by (simp add: toggle_resume_def split_def Let_def resume_started(1) toggle_started_def)


lemma prepare_playback_frames:
  "vi_frames (prepare_playback b s) = vi_frames s"
  "vi_nextFrame (prepare_playback b s) = vi_nextFrame s"
  "vi_animationFrameRef (prepare_playback b s) = vi_animationFrameRef s"
  by (simp_all add: prepare_playback_def Let_def ensure_audio_def ensure_context_def
      ensure_analyser_def ensure_source_def split: option.splits)

lemma play_began_sampling:
  assumes "vi_analyserRef s = None"
  shows "vi_frames (snd (playAudioResponse Began reading b s)) = vi_frames s @ [vi_nextFrame s]"
    and "playbackLevel (snd (playAudioResponse Began reading b s)) =
           average (getByteFrequencyData \<lparr>fftSize = 256\<rparr> reading) / 255"
    and "vi_analyserRef (snd (playAudioResponse Began reading b s)) = Some \<lparr>fftSize = 256\<rparr>"
  using assms
  by (simp_all add: play_unfold onplay_def analyzePlayback_def prepare_playback_refs
      prepare_playback_frames sample_level_256)

lemma play_failed_sampling:
  assumes "vi_analyserRef s = None"
  shows "vi_frames (snd (playAudioResponse (Failed e) reading b s)) =
           vi_frames s @ [vi_nextFrame s]"
    and "objectURLs (snd (playAudioResponse (Failed e) reading b s)) =
           objectURLs s @ [nextURL s]"
  using assms
  by (simp_all add: play_unfold catch_playback_fields onplay_def analyzePlayback_def
      prepare_playback_refs prepare_playback_frames sample_level_256)
    (simp add: prepare_playback_def Let_def ensure_audio_def ensure_context_def
      ensure_analyser_def ensure_source_def split: option.splits)

lemma playback_frame_sampled:
  assumes "vi_analyserRef s = Some \<lparr>fftSize = 256\<rparr>" "h \<in> set (vi_frames s)"
  shows "playbackLevel (playback_frame h reading s) =
           average (getByteFrequencyData \<lparr>fftSize = 256\<rparr> reading) / 255"
    and "isPlaying (playback_frame h reading s) = isPlaying s"
    and "toasts (playback_frame h reading s) = toasts s"
    and "isProcessing (playback_frame h reading s) = isProcessing s"
    and "useAudioRecorder (playback_frame h reading s) = useAudioRecorder s"
  using assms
  by (simp_all add: playback_frame_def analyzePlayback_def sample_level_256)

lemma mid_scale_reading:
  "average (getByteFrequencyData \<lparr>fftSize = 256\<rparr> (replicate 128 64)) = 64"
proof -
  have bins: "getByteFrequencyData \<lparr>fftSize = 256\<rparr> (replicate 128 64) = replicate 128 64"
    by (simp add: getByteFrequencyData_def frequencyBinCount_def)
  show ?thesis
    by (simp add: bins average_def sum_list_replicate)
qed

lemma error_event_unhandled: "audio_dispatch ErrorEvent reading s = s"
  by (simp add: audio_dispatch_def split: option.splits)

text \<open>
  C8, at an error after playback has begun. The component is mounted, records one
  fragment, stops, receives an ok response with an audio body, and playback begins in
  silence; one sampling later the element fires \<open>error\<close>. No handler is assigned for that
  event: \<open>isPlaying\<close> stays true, the level keeps its last reading, no Playback Error
  toast is shown, and both buttons, disabled while \<open>isPlaying\<close>, take no further click.
\<close>

theorem error_after_playback_began_is_unhandled:
  fixes env :: environment and evs :: "ui_event list"
  defines "env \<equiv>
     \<lparr>env_legacy = False, env_flush = [],
      env_fetch = (\<lambda>req. Inr \<lparr>status = 200, statusText = ''OK'',
                                body = \<lparr>bytes = [73, 68, 51], mime = ''audio/mpeg''\<rparr>\<rparr>),
      env_play = Began, env_reading = []\<rparr>"
    and "evs \<equiv>
     [Mount 1700000000000 ''0.4fzyo82mvyr'', ToggleClick env,
      MicrophoneSettled (Inr 7) Started [],
      Fragment \<lparr>bytes = [26, 69, 223, 163], mime = ''audio/webm''\<rparr>,
      ToggleClick env, PlaybackFrame 1 (replicate 128 64), AudioEvent ErrorEvent []]"
  shows "isPlaying (ui_run Map.empty evs)
       \<and> playbackLevel (ui_run Map.empty evs) = 64 / 255
       \<and> currentLevel (ui_run Map.empty evs) = 64 / 255
       \<and> toasts (ui_run Map.empty evs) = [recording_started_toast]
       \<and> \<not> isProcessing (ui_run Map.empty evs)
       \<and> ui_step (ui_run Map.empty evs) (ToggleClick env) = ui_run Map.empty evs
       \<and> ui_step (ui_run Map.empty evs) (ResetClick 1700000060000 ''0.k2j5x9q1w8z'') =
           ui_run Map.empty evs"
proof -
  define m where "m = ui_step (init_voice Map.empty) (Mount 1700000000000 ''0.4fzyo82mvyr'')"
  define a where "a = toggle_start m"
  define b where "b = toggle_resume (Inr 7) Started [] a"
  define c where "c = b\<lparr>useAudioRecorder :=
      ondataavailable \<lparr>bytes = [26, 69, 223, 163], mime = ''audio/webm''\<rparr> (useAudioRecorder b)\<rparr>"
  define d where "d = toggle_stop env c"
  define e where "e = playback_frame 1 (replicate 128 64) d"
  have m: "m = (init_voice Map.empty)\<lparr>useSession :=
      session_effect 1700000000000 ''0.4fzyo82mvyr'' (init_session Map.empty)\<rparr>"
    by (simp add: m_def init_voice_def)
  have free: "\<not> capturing (useAudioRecorder m)"
    by (simp add: m capturing_def init_voice_def init_recorder_def)
  have a: "a = m\<lparr>useAudioRecorder :=
       (useAudioRecorder m)\<lparr>starting := Suc (starting (useAudioRecorder m))\<rparr>\<rparr>"
    unfolding a_def by (rule toggle_start_suspended[OF free])
  have b: "b = a\<lparr>useAudioRecorder :=
          snd (startRecording_resume (Inr 7) Started [] (useAudioRecorder a)),
       toasts := toasts a @ [recording_started_toast]\<rparr>"
    unfolding b_def by (rule toggle_resume_started)
  have rec_b: "isRecording (useAudioRecorder b)"
    and ref_b: "mediaRecorderRef (useAudioRecorder b) =
       Some \<lparr>mr_stream = 7, mr_state = Recording, mr_onstop = False, mr_stop_queued = False\<rparr>"
    by (simp_all add: b resume_started)
  have rec_c: "isRecording (useAudioRecorder c)"
    and cap_c: "capturing (useAudioRecorder c)"
    using rec_b ref_b by (simp_all add: c_def ondataavailable_def capturing_def)
  have plain: "\<not> isProcessing c" "\<not> isPlaying c" "toasts c = [recording_started_toast]"
    "vi_analyserRef c = None" "vi_frames c = []" "vi_nextFrame c = 1" "network c = []"
    by (simp_all add: c_def b a m) (simp_all add: init_voice_def)
  have sid: "sessionId (useSession c) = generateSessionId 1700000000000 ''0.4fzyo82mvyr''"
    by (simp add: c_def b a m) (simp add: init_session_def session_effect_def)
  have sent: "fst (sendAudioToAPI (env_fetch env) blob session_id net) =
      Resolved \<lparr>bytes = [73, 68, 51], mime = ''audio/mpeg''\<rparr>" for blob session_id net
    by (simp add: send_results env_def ok_def)
  define s3 where "s3 = c\<lparr>isProcessing := True,
        useAudioRecorder :=
          snd (await_stopRecording (env_legacy env) (env_flush env) (useAudioRecorder c)),
        network := snd (sendAudioToAPI (env_fetch env)
           (new_Blob (audioChunksRef (useAudioRecorder c) @ env_flush env) ''audio/webm'')
           (sessionId (useSession c)) (network c))\<rparr>"
  have d: "d = finally_processing
      (snd (playAudioResponse Began [] \<lparr>bytes = [73, 68, 51], mime = ''audio/mpeg''\<rparr> s3))"
    unfolding d_def s3_def
    using generateSessionId_nonempty[of 1700000000000 "''0.4fzyo82mvyr''"]
    by (simp add: toggle_stop_unfold[OF cap_c] Let_def sid sent) (simp add: env_def)
  have s3: "vi_analyserRef s3 = None" "vi_frames s3 = []" "vi_nextFrame s3 = 1"
    "toasts s3 = [recording_started_toast]"
    by (simp_all add: s3_def plain)
  have stopped: "\<not> isRecording (useAudioRecorder s3)"
    by (simp add: s3_def await_stop_capturing[OF cap_c])
  have d_flags: "isPlaying d" "toasts d = [recording_started_toast]" "\<not> isProcessing d"
    "\<not> isRecording (useAudioRecorder d)"
    by (simp_all add: d finally_processing_def play_refs(6,10,11) s3 stopped)
  have d_fields: "vi_frames d = [1]" "vi_analyserRef d = Some \<lparr>fftSize = 256\<rparr>"
    by (simp_all add: d finally_processing_def play_began_sampling[OF s3(1)] s3)
  have e_fields: "isPlaying e" "toasts e = [recording_started_toast]" "\<not> isProcessing e"
    "playbackLevel e = 64 / 255" "\<not> isRecording (useAudioRecorder e)"
    unfolding e_def
    by (simp_all add: playback_frame_sampled[OF d_fields(2)] d_fields d_flags mid_scale_reading)
  have step1: "ui_step (init_voice Map.empty) (Mount 1700000000000 ''0.4fzyo82mvyr'') = m"
    by (simp add: m_def)
  have "\<not> isProcessing m" "\<not> isPlaying m" "\<not> isRecording (useAudioRecorder m)"
    by (simp_all add: m) (simp_all add: init_voice_def init_recorder_def)
  then have step2: "ui_step m (ToggleClick env) = a"
    by (simp add: handleToggleRecording_def a_def)
  have "starting (useAudioRecorder a) \<noteq> 0"
    by (simp add: a)
  then have step3: "ui_step a (MicrophoneSettled (Inr 7) Started []) = b"
    by (simp add: b_def)
  have step4: "ui_step b (Fragment \<lparr>bytes = [26, 69, 223, 163], mime = ''audio/webm''\<rparr>) = c"
    by (simp add: c_def)
  have step5: "ui_step c (ToggleClick env) = d"
    using plain(1,2) rec_c by (simp add: handleToggleRecording_def d_def)
  have step6: "ui_step d (PlaybackFrame 1 (replicate 128 64)) = e"
    by (simp add: e_def)
  have step7: "ui_step e (AudioEvent ErrorEvent []) = e"
    by (simp add: error_event_unhandled)
  have run: "ui_run Map.empty evs = e"
    unfolding ui_run_def evs_def
    by (simp only: foldl_Cons foldl_Nil step1 step2 step3 step4 step5 step6 step7)
  show ?thesis
    unfolding run using e_fields by (simp add: currentLevel_def)
qed

text \<open>
  The sibling path: when \<open>audio.play()\<close> is rejected, the \<open>catch\<close> block sets \<open>isPlaying\<close>
  to false and the level to 0 and shows the Playback Error toast, in every state. When
  the rejection follows the \<open>play\<close> event, the sampling loop that \<open>onplay\<close> started stays
  scheduled and the object URL stays allocated.
\<close>

lemma playback_start_error_is_surfaced:
  "p \<noteq> Began \<Longrightarrow>
   fst (playAudioResponse p reading audioBlob s) = Resolved ()
   \<and> \<not> isPlaying (snd (playAudioResponse p reading audioBlob s))
   \<and> playbackLevel (snd (playAudioResponse p reading audioBlob s)) = 0
   \<and> toasts (snd (playAudioResponse p reading audioBlob s)) = toasts s @ [playback_error_toast]"
  by (simp add: play_refs play_failed_level)

lemma decode_failure_leaves_sampling_loop:
  "vi_frames (snd (playAudioResponse (Failed e) reading audioBlob (init_voice store))) = [1]
   \<and> objectURLs (snd (playAudioResponse (Failed e) reading audioBlob (init_voice store))) = [1]"
proof -
  have "vi_analyserRef (init_voice store) = None"
    by (simp add: init_voice_def)
  then show ?thesis
    by (simp add: play_failed_sampling) (simp add: init_voice_def)
qed

section \<open>Overlapping starts and recorders that stop by themselves\<close>

lemma await_stop_capturing_log:
  assumes ref: "mediaRecorderRef s = Some r" and act: "mr_state r \<noteq> Inactive"
    and frame: "animationFrameRef s = Some h" and pos: "h \<noteq> 0"
  shows "frames (snd (await_stopRecording legacy flush s)) = removeAll h (frames s)"
    and "filter releases (effects (snd (await_stopRecording legacy flush s))) =
           filter releases (effects s) @ [TrackStop (mr_stream r)]"
    and "filter acquires (effects (snd (await_stopRecording legacy flush s))) =
           filter acquires (effects s)"
    and "orphans (snd (await_stopRecording legacy flush s)) = orphans s"
proof -
  define r' where "r' = r\<lparr>mr_onstop := True, mr_state := Inactive, mr_stop_queued := True\<rparr>"
  define s1 where "s1 = s\<lparr>mediaRecorderRef := Some r',
                effects := effects s @ [RecorderStop]\<rparr>"
  define s2 where "s2 = deliver flush s1"
  have stop: "stopRecording legacy s = (Pending, s1)"
    using stop_active[OF ref act] by (simp add: s1_def r'_def)
  have ref2: "mediaRecorderRef s2 = Some r'"
    by (simp add: s2_def deliver_others s1_def)
  have q: "mr_stop_queued r'" and inst: "mr_onstop r'"
    by (simp_all add: r'_def)
  note ev = stop_event_fires[OF ref2 q inst]
  have run: "snd (await_stopRecording legacy flush s) = snd (onstop r' s2)"
    using ev stop by (simp add: await_stopRecording_def split_def Let_def flip: s2_def)
  have s2: "frames s2 = frames s" "effects s2 = effects s @ [RecorderStop]"
    "animationFrameRef s2 = Some h" "orphans s2 = orphans s"
    by (simp_all add: s2_def deliver_others s1_def frame)
  show "frames (snd (await_stopRecording legacy flush s)) = removeAll h (frames s)"
    using pos by (simp add: run onstop_def Let_def cancel_frame_def s2 split: option.splits)
  show "filter releases (effects (snd (await_stopRecording legacy flush s))) =
           filter releases (effects s) @ [TrackStop (mr_stream r)]"
    using pos
    by (simp add: run onstop_def Let_def cancel_frame_def s2 r'_def split: option.splits)
  show "filter acquires (effects (snd (await_stopRecording legacy flush s))) =
           filter acquires (effects s)"
    using pos by (simp add: run onstop_def Let_def cancel_frame_def s2 split: option.splits)
  show "orphans (snd (await_stopRecording legacy flush s)) = orphans s"
    using pos by (simp add: run onstop_def Let_def cancel_frame_def s2 split: option.splits)
qed

text \<open>
  C2, at a second click before the microphone has settled. Both clicks pass the guard:
  the ref is assigned only after \<open>getUserMedia\<close> has settled, and nothing is disabled
  meanwhile. Both continuations then run: two streams are acquired, two sampling loops
  are scheduled, and the second continuation clears the chunk buffer, which holds a
  fragment of the first recorder, and replaces that recorder in the ref. Stopping
  releases the second stream and cancels the second loop only; the first recorder is
  still recording.
\<close>

theorem second_click_before_microphone_settles:
  fixes env :: environment and store :: "string \<rightharpoonup> string" and evs :: "ui_event list"
  defines "evs \<equiv>
     [ToggleClick env, ToggleClick env, MicrophoneSettled (Inr 7) Started [],
      Fragment \<lparr>bytes = [26, 69, 223, 163], mime = ''audio/webm''\<rparr>,
      MicrophoneSettled (Inr 8) Started []]"
  shows "filter acquires (effects (useAudioRecorder (ui_run store evs))) =
           [GetUserMedia 7, GetUserMedia 8]
       \<and> live_streams (useAudioRecorder (ui_run store evs)) = 2
       \<and> frames (useAudioRecorder (ui_run store evs)) = [1, 2]
       \<and> mediaRecorderRef (useAudioRecorder (ui_run store evs)) =
           Some \<lparr>mr_stream = 8, mr_state = Recording, mr_onstop = False,
                 mr_stop_queued = False\<rparr>
       \<and> orphans (useAudioRecorder (ui_run store evs)) =
           [\<lparr>mr_stream = 7, mr_state = Recording, mr_onstop = False, mr_stop_queued = False\<rparr>]
       \<and> audioChunksRef (useAudioRecorder (ui_run store evs)) = []
       \<and> live_streams (useAudioRecorder (ui_step (ui_run store evs) (ToggleClick env))) = 1
       \<and> frames (useAudioRecorder (ui_step (ui_run store evs) (ToggleClick env))) = [1]
       \<and> orphans (useAudioRecorder (ui_step (ui_run store evs) (ToggleClick env))) =
           [\<lparr>mr_stream = 7, mr_state = Recording, mr_onstop = False, mr_stop_queued = False\<rparr>]"
proof -
  define a1 where "a1 = toggle_start (init_voice store)"
  define a2 where "a2 = toggle_start a1"
  define b1 where "b1 = toggle_resume (Inr 7) Started [] a2"
  define c where "c = b1\<lparr>useAudioRecorder :=
      ondataavailable \<lparr>bytes = [26, 69, 223, 163], mime = ''audio/webm''\<rparr> (useAudioRecorder b1)\<rparr>"
  define b2 where "b2 = toggle_resume (Inr 8) Started [] c"
  have free0: "\<not> capturing (useAudioRecorder (init_voice store))"
    by (simp add: capturing_def init_voice_def init_recorder_def)
  have a1: "a1 = (init_voice store)\<lparr>useAudioRecorder := init_recorder\<lparr>starting := Suc 0\<rparr>\<rparr>"
    unfolding a1_def by (simp add: toggle_start_suspended[OF free0]) (simp add: init_voice_def init_recorder_def)
  have free1: "\<not> capturing (useAudioRecorder a1)"
    by (simp add: a1 capturing_def init_recorder_def)
  have a2: "a2 = (init_voice store)\<lparr>useAudioRecorder := init_recorder\<lparr>starting := Suc (Suc 0)\<rparr>\<rparr>"
    unfolding a2_def by (simp add: toggle_start_suspended[OF free1]) (simp add: a1)
  have b1: "b1 = a2\<lparr>useAudioRecorder :=
          snd (startRecording_resume (Inr 7) Started [] (useAudioRecorder a2)),
       toasts := toasts a2 @ [recording_started_toast]\<rparr>"
    unfolding b1_def by (rule toggle_resume_started)
  have b2: "b2 = c\<lparr>useAudioRecorder :=
          snd (startRecording_resume (Inr 8) Started [] (useAudioRecorder c)),
       toasts := toasts c @ [recording_started_toast]\<rparr>"
    unfolding b2_def by (rule toggle_resume_started)
  define r1 where "r1 = useAudioRecorder b1"
  have r1: "mediaRecorderRef r1 =
       Some \<lparr>mr_stream = 7, mr_state = Recording, mr_onstop = False, mr_stop_queued = False\<rparr>"
    "frames r1 = [1]" "nextFrame r1 = 2" "orphans r1 = []" "starting r1 = Suc 0"
    "effects r1 = [GetUserMedia 7, NewAudioContext, CreateAnalyser, CreateMediaStreamSource 7,
                   ConnectSourceAnalyser, NewMediaRecorder 7, RecorderStart]"
    by (simp_all add: r1_def b1 a2 resume_started resume_orphans)
      (simp_all add: init_recorder_def)
  define rc where "rc = useAudioRecorder c"
  have rc: "mediaRecorderRef rc = mediaRecorderRef r1" "frames rc = frames r1"
    "nextFrame rc = nextFrame r1" "orphans rc = orphans r1" "starting rc = starting r1"
    "effects rc = effects r1"
    by (simp_all add: rc_def c_def ondataavailable_def flip: r1_def)
  define r2 where "r2 = useAudioRecorder b2"
  have r2: "mediaRecorderRef r2 =
       Some \<lparr>mr_stream = 8, mr_state = Recording, mr_onstop = False, mr_stop_queued = False\<rparr>"
    "frames r2 = [1, 2]" "animationFrameRef r2 = Some 2"
    "orphans r2 =
       [\<lparr>mr_stream = 7, mr_state = Recording, mr_onstop = False, mr_stop_queued = False\<rparr>]"
    "audioChunksRef r2 = []" "isRecording r2"
    "effects r2 = [GetUserMedia 7, NewAudioContext, CreateAnalyser, CreateMediaStreamSource 7,
                   ConnectSourceAnalyser, NewMediaRecorder 7, RecorderStart,
                   GetUserMedia 8, NewAudioContext, CreateAnalyser, CreateMediaStreamSource 8,
                   ConnectSourceAnalyser, NewMediaRecorder 8, RecorderStart]"
    by (simp_all add: r2_def b2 resume_started resume_orphans rc r1 flip: rc_def)
  have flags: "\<not> isProcessing b2" "\<not> isPlaying b2"
    by (simp_all add: b2 c_def b1 a2) (simp_all add: init_voice_def)
  have step1: "ui_step (init_voice store) (ToggleClick env) = a1"
    by (simp add: handleToggleRecording_def a1_def) (simp add: init_voice_def init_recorder_def)
  have step2: "ui_step a1 (ToggleClick env) = a2"
    by (simp add: handleToggleRecording_def a2_def) (simp add: a1 init_voice_def init_recorder_def)
  have step3: "ui_step a2 (MicrophoneSettled (Inr 7) Started []) = b1"
    by (simp add: b1_def) (simp add: a2)
  have step4: "ui_step b1 (Fragment \<lparr>bytes = [26, 69, 223, 163], mime = ''audio/webm''\<rparr>) = c"
    by (simp add: c_def)
  have "starting (useAudioRecorder c) \<noteq> 0"
    using rc(5) r1(5) by (simp add: rc_def)
  then have step5: "ui_step c (MicrophoneSettled (Inr 8) Started []) = b2"
    by (simp add: b2_def)
  have run: "ui_run store evs = b2"
    unfolding ui_run_def evs_def
    by (simp only: foldl_Cons foldl_Nil step1 step2 step3 step4 step5)
  have stop: "useAudioRecorder (ui_step b2 (ToggleClick env)) =
      snd (await_stopRecording (env_legacy env) (env_flush env) r2)"
    using flags r2(6)
    by (simp add: handleToggleRecording_def toggle_recorder flip: r2_def)
  have act: "mr_state \<lparr>mr_stream = 8, mr_state = Recording, mr_onstop = False,
                        mr_stop_queued = False\<rparr> \<noteq> Inactive"
    by simp
  have pos: "(2::nat) \<noteq> 0"
    by simp
  note after = await_stop_capturing_log[OF r2(1) act r2(3) pos,
      of "env_legacy env" "env_flush env"]
  show ?thesis
    unfolding run stop
    by (simp add: after live_streams_def flip: r2_def) (simp add: r2)
qed

lemma stop_stale_rejects:
  "stopped_in_ref s \<Longrightarrow>
   fst (stopRecording True s) =
     Rejected (DOMException ''InvalidStateError'' ''The MediaRecorder is inactive'')"
  by (auto simp add: stopped_in_ref_def stopRecording_def Let_def split: option.splits)

lemma await_stop_stale:
  assumes "mediaRecorderRef s = Some r" "mr_state r = Inactive"
  shows "await_stopRecording True flush s =
           (Rejected (DOMException ''InvalidStateError'' ''The MediaRecorder is inactive''),
            s\<lparr>mediaRecorderRef := Some (r\<lparr>mr_onstop := True\<rparr>)\<rparr>)"
    and "\<not> mr_stop_queued r \<Longrightarrow> fst (await_stopRecording False flush s) = Pending"
proof -
  show "await_stopRecording True flush s =
           (Rejected (DOMException ''InvalidStateError'' ''The MediaRecorder is inactive''),
            s\<lparr>mediaRecorderRef := Some (r\<lparr>mr_onstop := True\<rparr>)\<rparr>)"
    by (simp add: await_stopRecording_def stop_inactive[OF assms])
  assume nq: "\<not> mr_stop_queued r"
  have "stop_event (deliver flush (s\<lparr>mediaRecorderRef := Some (r\<lparr>mr_onstop := True\<rparr>)\<rparr>)) =
      (None, deliver flush (s\<lparr>mediaRecorderRef := Some (r\<lparr>mr_onstop := True\<rparr>)\<rparr>))"
    by (rule stop_event_needs_request[where r = "r\<lparr>mr_onstop := True\<rparr>"])
      (simp_all add: deliver_others nq)
  then show "fst (await_stopRecording False flush s) = Pending"
    by (simp add: await_stopRecording_def stop_inactive[OF assms])
qed

text \<open>
  C10, at a recorder whose tracks have ended. The recorder is inactive and its \<open>stop\<close>
  event has passed with no handler installed, so \<open>isRecording\<close> is still true, the ref
  still holds the recorder and the toggle button is enabled. The executor of
  \<open>stopRecording\<close> then calls \<open>stop()\<close> on an inactive recorder: under the earlier
  algorithm the exception rejects the promise, the toggle shows it in an Error toast and
  \<open>isRecording\<close> is still true afterwards; under the current algorithm the promise stays
  pending.
\<close>

theorem stop_after_track_ended_rejects:
  fixes env :: environment and store :: "string \<rightharpoonup> string" and evs :: "ui_event list"
  defines "evs \<equiv>
     [ToggleClick env, MicrophoneSettled (Inr 7) Started [], RecorderTrackEnded,
      RecorderStopEvent]"
  shows "isRecording (useAudioRecorder (ui_run store evs))
       \<and> \<not> isProcessing (ui_run store evs)
       \<and> \<not> isPlaying (ui_run store evs)
       \<and> stopped_in_ref (useAudioRecorder (ui_run store evs))
       \<and> fst (stopRecording True (useAudioRecorder (ui_run store evs))) =
           Rejected (DOMException ''InvalidStateError'' ''The MediaRecorder is inactive'')
       \<and> fst (await_stopRecording False flush (useAudioRecorder (ui_run store evs))) = Pending
       \<and> toasts (ui_step (ui_run store evs) (ToggleClick (env\<lparr>env_legacy := True\<rparr>))) =
           [recording_started_toast,
            error_toast (DOMException ''InvalidStateError'' ''The MediaRecorder is inactive'')]
       \<and> isRecording (useAudioRecorder
            (ui_step (ui_run store evs) (ToggleClick (env\<lparr>env_legacy := True\<rparr>))))"
proof -
  define a where "a = toggle_start (init_voice store)"
  define b where "b = toggle_resume (Inr 7) Started [] a"
  define c where "c = b\<lparr>useAudioRecorder := track_ended (useAudioRecorder b)\<rparr>"
  define d where "d = c\<lparr>useAudioRecorder := snd (stop_event (useAudioRecorder c))\<rparr>"
  define r where "r = \<lparr>mr_stream = 7, mr_state = Inactive, mr_onstop = False,
                        mr_stop_queued = False\<rparr>"
  have free0: "\<not> capturing (useAudioRecorder (init_voice store))"
    by (simp add: capturing_def init_voice_def init_recorder_def)
  have a: "a = (init_voice store)\<lparr>useAudioRecorder := init_recorder\<lparr>starting := Suc 0\<rparr>\<rparr>"
    unfolding a_def
    by (simp add: toggle_start_suspended[OF free0]) (simp add: init_voice_def init_recorder_def)
  have b: "b = a\<lparr>useAudioRecorder :=
          snd (startRecording_resume (Inr 7) Started [] (useAudioRecorder a)),
       toasts := toasts a @ [recording_started_toast]\<rparr>"
    unfolding b_def by (rule toggle_resume_started)
  have rb: "mediaRecorderRef (useAudioRecorder b) =
       Some \<lparr>mr_stream = 7, mr_state = Recording, mr_onstop = False, mr_stop_queued = False\<rparr>"
    "isRecording (useAudioRecorder b)"
    by (simp_all add: b resume_started)
  have rc: "mediaRecorderRef (useAudioRecorder c) = Some (r\<lparr>mr_stop_queued := True\<rparr>)"
    "isRecording (useAudioRecorder c)"
    using rb by (simp_all add: c_def track_ended_def r_def)
  have rd: "mediaRecorderRef (useAudioRecorder d) = Some r" "isRecording (useAudioRecorder d)"
    using rc by (simp_all add: d_def stop_event_def r_def)
  have inactive: "mr_state r = Inactive" and nq: "\<not> mr_stop_queued r"
    by (simp_all add: r_def)
  have flags: "\<not> isProcessing d" "\<not> isPlaying d" "toasts d = [recording_started_toast]"
    by (simp_all add: d_def c_def b a) (simp_all add: init_voice_def)
  have step1: "ui_step (init_voice store) (ToggleClick env) = a"
    by (simp add: handleToggleRecording_def a_def) (simp add: init_voice_def init_recorder_def)
  have step2: "ui_step a (MicrophoneSettled (Inr 7) Started []) = b"
    by (simp add: b_def) (simp add: a)
  have step3: "ui_step b RecorderTrackEnded = c"
    by (simp add: c_def)
  have step4: "ui_step c RecorderStopEvent = d"
    by (simp add: d_def)
  have run: "ui_run store evs = d"
    unfolding ui_run_def evs_def
    by (simp only: foldl_Cons foldl_Nil step1 step2 step3 step4)
  have stale: "stopped_in_ref (useAudioRecorder d)"
    by (simp add: stopped_in_ref_def rd inactive)
  note aw = await_stop_stale[OF rd(1) inactive]
  have click: "ui_step d (ToggleClick (env\<lparr>env_legacy := True\<rparr>)) =
      toggle_stop (env\<lparr>env_legacy := True\<rparr>) d"
    using flags rd(2) by (simp add: handleToggleRecording_def)
  have stopped: "toggle_stop (env\<lparr>env_legacy := True\<rparr>) d =
      finally_processing
        (catch_processing (DOMException ''InvalidStateError'' ''The MediaRecorder is inactive'')
          (d\<lparr>isProcessing := True,
             useAudioRecorder :=
               (useAudioRecorder d)\<lparr>mediaRecorderRef := Some (r\<lparr>mr_onstop := True\<rparr>)\<rparr>\<rparr>))"
    by (simp add: toggle_stop_def Let_def aw(1))
  show ?thesis
    unfolding run click stopped
    using rd(2) flags stale
    by (simp add: stop_stale_rejects aw(2)[OF nq] catch_finally_others)
qed

end
